theory Spec2Isabelle
  imports Main "HOL-Library.Sublist"
begin

section \<open>Paths\<close>

text \<open>
  The boundary layer works on POSIX paths through \<^verbatim>\<open>node:path\<close>. An absolute path is
  modelled by the list of its segments below the filesystem root, so \<^verbatim>\<open>/\<close> is the empty
  list and \<^verbatim>\<open>/work/a.txt\<close> is \<open>[''work'', ''a.txt'']\<close>. A path that has not been
  normalised yet may still contain empty, \<^verbatim>\<open>.\<close> and \<^verbatim>\<open>..\<close> segments.
\<close>

type_synonym path = "string list"

text \<open>\<^verbatim>\<open>path.resolve\<close> and \<^verbatim>\<open>path.join\<close> on an absolute first argument: empty and
  \<^verbatim>\<open>.\<close> segments vanish, \<^verbatim>\<open>..\<close> removes the segment before it and is dropped at the root.\<close>

fun normalizeSegments :: "path \<Rightarrow> string list \<Rightarrow> path" where
  "normalizeSegments acc [] = acc"
| "normalizeSegments acc (s # rest) =
     (if s = [] \<or> s = ''.'' then normalizeSegments acc rest
      else if s = ''..'' then normalizeSegments (butlast acc) rest
      else normalizeSegments (acc @ [s]) rest)"

definition path_resolve :: "path \<Rightarrow> path" where
  "path_resolve p = normalizeSegments [] p"

definition path_resolve_from :: "path \<Rightarrow> string list \<Rightarrow> path" where
  "path_resolve_from base segs = normalizeSegments [] (base @ segs)"

definition path_join :: "path \<Rightarrow> string \<Rightarrow> path" where
  "path_join base seg = normalizeSegments [] (base @ [seg])"

definition path_dirname :: "path \<Rightarrow> path" where
  "path_dirname p = butlast p"

definition path_basename :: "path \<Rightarrow> string" where
  "path_basename p = (if p = [] then [] else last p)"

text \<open>\<^verbatim>\<open>path.relative(from, to)\<close> on two normalised absolute paths, already split at the
  separator: the common prefix is dropped, every remaining segment of \<open>from\<close> becomes
  \<^verbatim>\<open>..\<close>, and the rest of \<open>to\<close> follows.\<close>

fun path_relative :: "path \<Rightarrow> path \<Rightarrow> string list" where
  "path_relative (a # as) (b # bs) =
     (if a = b then path_relative as bs
      else replicate (length (a # as)) ''..'' @ (b # bs))"
| "path_relative as bs = replicate (length as) ''..'' @ bs"

definition isFilesystemRoot :: "path \<Rightarrow> bool" where
  "isFilesystemRoot candidate = (candidate = [])"

text \<open>Modelled from the spec: \<^verbatim>\<open>isPathInside\<close> of \<^verbatim>\<open>path-guards.js\<close>, which is not among
  the sources. The spec describes it as ``is path A lexically inside path B'', a ``simple
  prefix containment on the normalized paths''; a path is inside itself.\<close>

definition isPathInside :: "path \<Rightarrow> path \<Rightarrow> bool" where
  "isPathInside root target = prefix (path_resolve root) (path_resolve target)"

section \<open>Errors\<close>

datatype errno = ENOENT | ENOTDIR | ELOOP | EISDIR | EACCES | EIO | EEXIST | EINVAL

datatype SafeOpenErrorCode =
  InvalidPath | NotFound | OutsideWorkspace | Symlink | NotFile | PathMismatch | TooLarge

text \<open>Everything the layer can throw. The three boundary errors of the resolver are plain
  \<^verbatim>\<open>Error\<close>s told apart by their message (``Path escapes'', ``Path resolves outside'',
  ``Symlink escapes''); here each carries the arguments its message is built from
  (boundary label, root, offending path), before \<^verbatim>\<open>shortPath\<close> abbreviates the home
  directory. A \<open>SafeOpenError\<close> carries its code, its message and its optional cause.\<close>

datatype error =
  NodeError errno
| PathEscapesError string path path
| ResolvesOutsideError string path path
| SymlinkEscapesError string path path
| SafeOpenError SafeOpenErrorCode string "error option"

text \<open>Modelled from the spec: \<^verbatim>\<open>hasNodeErrorCode\<close> of \<^verbatim>\<open>path-guards.js\<close>, which is not
  among the sources; by its use (\<^verbatim>\<open>hasNodeErrorCode(err, "EISDIR")\<close>) it tells whether the
  value is a system error with the given code.\<close>

fun hasNodeErrorCode :: "error \<Rightarrow> errno \<Rightarrow> bool" where
  "hasNodeErrorCode (NodeError c) code = (c = code)"
| "hasNodeErrorCode _ code = False"

text \<open>Modelled from the spec: \<^verbatim>\<open>isNotFoundPathError\<close> of \<^verbatim>\<open>path-guards.js\<close>, which is not
  among the sources: ``is this error a not-found error'', the system error \<^verbatim>\<open>ENOENT\<close>.\<close>

definition isNotFoundPathError :: "error \<Rightarrow> bool" where
  "isNotFoundPathError e = hasNodeErrorCode e ENOENT"

text \<open>Modelled from the spec: \<^verbatim>\<open>isSymlinkOpenError\<close> of \<^verbatim>\<open>path-guards.js\<close>, which is not
  among the sources: ``is this error specifically a symlink-open rejection'', the system
  error \<^verbatim>\<open>ELOOP\<close> with which an open that must not follow a final link is refused.\<close>

definition isSymlinkOpenError :: "error \<Rightarrow> bool" where
  "isSymlinkOpenError e = hasNodeErrorCode e ELOOP"

fun isSafeOpenError :: "error \<Rightarrow> bool" where
  "isSafeOpenError (SafeOpenError c m cause) = True"
| "isSafeOpenError _ = False"

section \<open>The filesystem as seen by one call\<close>

datatype file_type = RegularFile | Directory | SymbolicLink | OtherType

record stats =
  st_type :: file_type
  st_dev :: nat
  st_ino :: nat
  st_nlink :: nat
  st_size :: int

definition isFile :: "stats \<Rightarrow> bool" where
  "isFile st = (st_type st = RegularFile)"

definition isDirectory :: "stats \<Rightarrow> bool" where
  "isDirectory st = (st_type st = Directory)"

definition isSymbolicLink :: "stats \<Rightarrow> bool" where
  "isSymbolicLink st = (st_type st = SymbolicLink)"

text \<open>A path string handed over unresolved (the target stored in a symbolic link, a
  caller's relative path): absolute, or relative to a directory known to the caller.\<close>

datatype link_target = AbsoluteTarget path | RelativeTarget "string list"

text \<open>The resolver only reads the filesystem. One filesystem state is the answer of each
  read-only system call at every path; the blocking and the promise-based calls of Node
  (\<^verbatim>\<open>fs.lstatSync\<close> and \<^verbatim>\<open>fsp.lstat\<close>, and so on) read the same state.\<close>

record fs_ops =
  lstat :: "path \<Rightarrow> errno + stats"
  stat :: "path \<Rightarrow> errno + stats"
  realpath :: "path \<Rightarrow> errno + path"
  readlink :: "path \<Rightarrow> errno + link_target"

text \<open>\<^verbatim>\<open>fs.existsSync\<close> of Node: true when the path can be accessed, following symbolic
  links, and false on every error.\<close>

definition existsSync :: "fs_ops \<Rightarrow> path \<Rightarrow> bool" where
  "existsSync ops p = (case stat ops p of Inr st \<Rightarrow> True | Inl e \<Rightarrow> False)"

definition pathExists :: "fs_ops \<Rightarrow> path \<Rightarrow> error + bool" where
  "pathExists ops targetPath =
     (case lstat ops targetPath of
        Inr st \<Rightarrow> Inr True
      | Inl e \<Rightarrow> if isNotFoundPathError (NodeError e) then Inr False else Inl (NodeError e))"

section \<open>Resolution through the deepest existing ancestor\<close>

text \<open>The \<^verbatim>\<open>while\<close> loop of \<^verbatim>\<open>resolvePathViaExistingAncestor\<close>: it walks up from the
  target, collecting the names that do not exist, and returns the cursor it stopped at
  with the missing suffix.\<close>

function walkUpAsync :: "fs_ops \<Rightarrow> path \<Rightarrow> string list \<Rightarrow> error + (path \<times> string list)" where
  "walkUpAsync ops cursor missingSuffix =
     (if isFilesystemRoot cursor then Inr (cursor, missingSuffix)
      else case pathExists ops cursor of
        Inl e \<Rightarrow> Inl e
      | Inr True \<Rightarrow> Inr (cursor, missingSuffix)
      | Inr False \<Rightarrow>
          (let missing = path_basename cursor # missingSuffix;
               parent = path_dirname cursor
           in if parent = cursor then Inr (cursor, missing)
              else walkUpAsync ops parent missing))"
  by pat_completeness auto
termination
  by (relation "measure (\<lambda>(ops, cursor, missingSuffix). length cursor)")
     (auto simp: isFilesystemRoot_def path_dirname_def)

function walkUpSync :: "fs_ops \<Rightarrow> path \<Rightarrow> string list \<Rightarrow> path \<times> string list" where
  "walkUpSync ops cursor missingSuffix =
     (if isFilesystemRoot cursor \<or> existsSync ops cursor then (cursor, missingSuffix)
      else
        (let missing = path_basename cursor # missingSuffix;
             parent = path_dirname cursor
         in if parent = cursor then (cursor, missing)
            else walkUpSync ops parent missing))"
  by pat_completeness auto
termination
  by (relation "measure (\<lambda>(ops, cursor, missingSuffix). length cursor)")
     (auto simp: isFilesystemRoot_def path_dirname_def)

definition resolvePathViaExistingAncestor :: "fs_ops \<Rightarrow> path \<Rightarrow> error + path" where
  "resolvePathViaExistingAncestor ops targetPath =
     (let normalized = path_resolve targetPath in
      case walkUpAsync ops normalized [] of
        Inl e \<Rightarrow> Inl e
      | Inr (cursor, missingSuffix) \<Rightarrow>
          (case pathExists ops cursor of
             Inl e \<Rightarrow> Inl e
           | Inr False \<Rightarrow> Inr normalized
           | Inr True \<Rightarrow>
               (case realpath ops cursor of
                  Inl e \<Rightarrow> Inr normalized
                | Inr real \<Rightarrow>
                    (let resolvedAncestor = path_resolve real in
                     if missingSuffix = [] then Inr resolvedAncestor
                     else Inr (path_resolve_from resolvedAncestor missingSuffix)))))"

definition resolvePathViaExistingAncestorSync :: "fs_ops \<Rightarrow> path \<Rightarrow> path" where
  "resolvePathViaExistingAncestorSync ops targetPath =
     (let normalized = path_resolve targetPath in
      case walkUpSync ops normalized [] of
        (cursor, missingSuffix) \<Rightarrow>
          if \<not> existsSync ops cursor then normalized
          else
            (case realpath ops cursor of
               Inl e \<Rightarrow> normalized
             | Inr real \<Rightarrow>
                 (let resolvedAncestor = path_resolve real in
                  if missingSuffix = [] then resolvedAncestor
                  else path_resolve_from resolvedAncestor missingSuffix)))"

declare walkUpAsync.simps [simp del]
declare walkUpSync.simps [simp del]

section \<open>The boundary path resolver\<close>

datatype BoundaryPathIntent = IntentRead | IntentWrite | IntentCreate | IntentDelete | IntentStat

record BoundaryPathAliasPolicy =
  allowFinalSymlinkForUnlink :: "bool option"
  allowFinalHardlinkForUnlink :: "bool option"

definition policy_strict :: BoundaryPathAliasPolicy where
  "policy_strict =
     \<lparr>allowFinalSymlinkForUnlink = Some False, allowFinalHardlinkForUnlink = Some False\<rparr>"

definition policy_unlinkTarget :: BoundaryPathAliasPolicy where
  "policy_unlinkTarget =
     \<lparr>allowFinalSymlinkForUnlink = Some True, allowFinalHardlinkForUnlink = Some True\<rparr>"

text \<open>The fields of \<^verbatim>\<open>ResolveBoundaryPathParams\<close> carry the prefix \<open>p_\<close>, since the
  result record has fields of the same names.\<close>

record ResolveBoundaryPathParams =
  p_absolutePath :: path
  p_rootPath :: path
  p_boundaryLabel :: string
  p_intent :: "BoundaryPathIntent option"
  p_policy :: "BoundaryPathAliasPolicy option"
  p_skipLexicalRootCheck :: "bool option"
  p_rootCanonicalPath :: "path option"

datatype ResolvedBoundaryPathKind = Missing | KFile | KDirectory | KSymlink | KOther

record PathKind =
  pk_exists :: bool
  pk_kind :: ResolvedBoundaryPathKind

record ResolvedBoundaryPath =
  absolutePath :: path
  canonicalPath :: path
  rootPath :: path
  rootCanonicalPath :: path
  relativePath :: "string list"
  exists :: bool
  kind :: ResolvedBoundaryPathKind

record LexicalTraversalState =
  segments :: "string list"
  allowFinalSymlink :: bool
  canonicalCursor :: path
  lexicalCursor :: path
  preserveFinalSymlink :: bool

record BoundaryResolutionContext =
  c_rootPath :: path
  c_absolutePath :: path
  c_rootCanonicalPath :: path
  c_lexicalInside :: bool
  c_canonicalOutsideLexicalPath :: path

definition createLexicalTraversalState ::
  "ResolveBoundaryPathParams \<Rightarrow> path \<Rightarrow> path \<Rightarrow> path \<Rightarrow> LexicalTraversalState" where
  "createLexicalTraversalState params rootP rootCanonical absP =
     (let relative = path_relative rootP absP in
      \<lparr>segments = filter (\<lambda>s. s \<noteq> []) relative,
       allowFinalSymlink =
         (case p_policy params of
            None \<Rightarrow> False
          | Some pol \<Rightarrow> allowFinalSymlinkForUnlink pol = Some True),
       canonicalCursor = rootCanonical,
       lexicalCursor = rootP,
       preserveFinalSymlink = False\<rparr>)"

definition assertInsideBoundary :: "string \<Rightarrow> path \<Rightarrow> path \<Rightarrow> path \<Rightarrow> error + unit" where
  "assertInsideBoundary label rootCanonical candidatePath absP =
     (if isPathInside rootCanonical candidatePath then Inr ()
      else Inl (ResolvesOutsideError label rootCanonical absP))"

definition assertLexicalCursorInsideBoundary ::
  "ResolveBoundaryPathParams \<Rightarrow> path \<Rightarrow> path \<Rightarrow> path \<Rightarrow> error + unit" where
  "assertLexicalCursorInsideBoundary params rootCanonical absP candidatePath =
     assertInsideBoundary (p_boundaryLabel params) rootCanonical candidatePath absP"

definition applyMissingSuffixToCanonicalCursor ::
  "LexicalTraversalState \<Rightarrow> nat \<Rightarrow> path \<Rightarrow> ResolveBoundaryPathParams \<Rightarrow> path
   \<Rightarrow> error + LexicalTraversalState" where
  "applyMissingSuffixToCanonicalCursor state missingFromIndex rootCanonical params absP =
     (let missingSuffix = drop missingFromIndex (segments state);
          state' = state\<lparr>canonicalCursor :=
                     path_resolve_from (canonicalCursor state) missingSuffix\<rparr>
      in case assertLexicalCursorInsideBoundary params rootCanonical absP
                (canonicalCursor state') of
           Inl e \<Rightarrow> Inl e
         | Inr u \<Rightarrow> Inr state')"

definition advanceCanonicalCursorForSegment ::
  "LexicalTraversalState \<Rightarrow> string \<Rightarrow> path \<Rightarrow> ResolveBoundaryPathParams \<Rightarrow> path
   \<Rightarrow> error + LexicalTraversalState" where
  "advanceCanonicalCursorForSegment state segment rootCanonical params absP =
     (let state' = state\<lparr>canonicalCursor :=
                     path_resolve_from (canonicalCursor state) [segment]\<rparr>
      in case assertLexicalCursorInsideBoundary params rootCanonical absP
                (canonicalCursor state') of
           Inl e \<Rightarrow> Inl e
         | Inr u \<Rightarrow> Inr state')"

definition relativeInsideRoot :: "path \<Rightarrow> path \<Rightarrow> string list" where
  "relativeInsideRoot rootP targetPath =
     (let relative = path_relative (path_resolve rootP) (path_resolve targetPath) in
      if relative = [] \<or> relative = [''.''] then []
      else if take 2 (hd relative) = ''..'' then []
      else relative)"

definition buildResolvedBoundaryPath ::
  "path \<Rightarrow> path \<Rightarrow> path \<Rightarrow> path \<Rightarrow> PathKind \<Rightarrow> ResolvedBoundaryPath" where
  "buildResolvedBoundaryPath absP canonical rootP rootCanonical k =
     \<lparr>absolutePath = absP,
      canonicalPath = canonical,
      rootPath = rootP,
      rootCanonicalPath = rootCanonical,
      relativePath = relativeInsideRoot rootCanonical canonical,
      exists = pk_exists k,
      kind = pk_kind k\<rparr>"

definition finalizeLexicalResolution ::
  "ResolveBoundaryPathParams \<Rightarrow> path \<Rightarrow> path \<Rightarrow> path \<Rightarrow> LexicalTraversalState \<Rightarrow> PathKind
   \<Rightarrow> error + ResolvedBoundaryPath" where
  "finalizeLexicalResolution params rootP rootCanonical absP state k =
     (case assertLexicalCursorInsideBoundary params rootCanonical absP (canonicalCursor state) of
        Inl e \<Rightarrow> Inl e
      | Inr u \<Rightarrow>
          Inr (buildResolvedBoundaryPath absP (canonicalCursor state) rootP rootCanonical k))"

text \<open>\<^verbatim>\<open>handleLexicalLstatFailure\<close> answers whether the failure was a missing path; when it
  was, the canonical cursor has taken the missing suffix.\<close>

definition handleLexicalLstatFailure ::
  "error \<Rightarrow> LexicalTraversalState \<Rightarrow> nat \<Rightarrow> path \<Rightarrow> ResolveBoundaryPathParams \<Rightarrow> path
   \<Rightarrow> error + (bool \<times> LexicalTraversalState)" where
  "handleLexicalLstatFailure err state missingFromIndex rootCanonical resolveParams absP =
     (if \<not> isNotFoundPathError err then Inr (False, state)
      else case applyMissingSuffixToCanonicalCursor state missingFromIndex rootCanonical
                  resolveParams absP of
             Inl e \<Rightarrow> Inl e
           | Inr state' \<Rightarrow> Inr (True, state'))"

definition handleLexicalStatReadFailure ::
  "error \<Rightarrow> LexicalTraversalState \<Rightarrow> nat \<Rightarrow> path \<Rightarrow> ResolveBoundaryPathParams \<Rightarrow> path
   \<Rightarrow> error + (stats option \<times> LexicalTraversalState)" where
  "handleLexicalStatReadFailure err state missingFromIndex rootCanonical resolveParams absP =
     (case handleLexicalLstatFailure err state missingFromIndex rootCanonical
             resolveParams absP of
        Inl e \<Rightarrow> Inl e
      | Inr (True, state') \<Rightarrow> Inr (None, state')
      | Inr (False, state') \<Rightarrow> Inl err)"

definition readLexicalStat ::
  "LexicalTraversalState \<Rightarrow> nat \<Rightarrow> path \<Rightarrow> ResolveBoundaryPathParams \<Rightarrow> path
   \<Rightarrow> (path \<Rightarrow> errno + stats) \<Rightarrow> error + (stats option \<times> LexicalTraversalState)" where
  "readLexicalStat state missingFromIndex rootCanonical resolveParams absP read =
     (case read (lexicalCursor state) of
        Inr st \<Rightarrow> Inr (Some st, state)
      | Inl e \<Rightarrow> handleLexicalStatReadFailure (NodeError e) state missingFromIndex
                   rootCanonical resolveParams absP)"

datatype disposition = Continue | Break | ResolveLink

definition handleLexicalStatDisposition ::
  "LexicalTraversalState \<Rightarrow> bool \<Rightarrow> string \<Rightarrow> bool \<Rightarrow> path \<Rightarrow> ResolveBoundaryPathParams
   \<Rightarrow> path \<Rightarrow> error + (disposition \<times> LexicalTraversalState)" where
  "handleLexicalStatDisposition state isSymLink segment isLast rootCanonical resolveParams absP =
     (if \<not> isSymLink then
        (case advanceCanonicalCursorForSegment state segment rootCanonical resolveParams absP of
           Inl e \<Rightarrow> Inl e
         | Inr state' \<Rightarrow> Inr (Continue, state'))
      else if allowFinalSymlink state \<and> isLast then
        (case advanceCanonicalCursorForSegment (state\<lparr>preserveFinalSymlink := True\<rparr>)
                segment rootCanonical resolveParams absP of
           Inl e \<Rightarrow> Inl e
         | Inr state' \<Rightarrow> Inr (Break, state'))
      else Inr (ResolveLink, state))"

definition applyResolvedSymlinkHop ::
  "LexicalTraversalState \<Rightarrow> path \<Rightarrow> path \<Rightarrow> string \<Rightarrow> error + LexicalTraversalState" where
  "applyResolvedSymlinkHop state linkCanonical rootCanonical label =
     (if \<not> isPathInside rootCanonical linkCanonical
      then Inl (SymlinkEscapesError label rootCanonical (lexicalCursor state))
      else Inr (state\<lparr>canonicalCursor := linkCanonical, lexicalCursor := linkCanonical\<rparr>))"

definition resolveAndApplySymlinkHop ::
  "LexicalTraversalState \<Rightarrow> path \<Rightarrow> string \<Rightarrow> (path \<Rightarrow> error + path)
   \<Rightarrow> error + LexicalTraversalState" where
  "resolveAndApplySymlinkHop state rootCanonical label resolveLinkCanonical =
     (case resolveLinkCanonical (lexicalCursor state) of
        Inl e \<Rightarrow> Inl e
      | Inr linkCanonical \<Rightarrow> applyResolvedSymlinkHop state linkCanonical rootCanonical label)"

text \<open>The traversal loop of \<^verbatim>\<open>resolveBoundaryPathLexicalAsync\<close> and of
  \<^verbatim>\<open>resolveBoundaryPathLexicalSync\<close>. Both run the same steps and differ in the calls
  they hand to \<^verbatim>\<open>readLexicalStat\<close> and \<^verbatim>\<open>resolveAndApplySymlinkHop\<close>, which are the
  parameters \<open>read\<close> and \<open>resolveLinkCanonical\<close> here. The loop index is \<open>idx\<close>; the list
  argument holds the segments from \<open>idx\<close> on.\<close>

fun lexicalTraversal ::
  "(path \<Rightarrow> errno + stats) \<Rightarrow> (path \<Rightarrow> error + path) \<Rightarrow> ResolveBoundaryPathParams \<Rightarrow> path
   \<Rightarrow> path \<Rightarrow> nat \<Rightarrow> string list \<Rightarrow> LexicalTraversalState \<Rightarrow> error + LexicalTraversalState"
  where
  "lexicalTraversal read resolveLinkCanonical params rootCanonical absP idx [] state = Inr state"
| "lexicalTraversal read resolveLinkCanonical params rootCanonical absP idx (segment # rest) state =
     (let isLast = (idx = length (segments state) - 1);
          state1 = state\<lparr>lexicalCursor := path_join (lexicalCursor state) segment\<rparr>
      in case readLexicalStat state1 idx rootCanonical params absP read of
           Inl e \<Rightarrow> Inl e
         | Inr (None, state2) \<Rightarrow> Inr state2
         | Inr (Some st, state2) \<Rightarrow>
             (case handleLexicalStatDisposition state2 (isSymbolicLink st) segment isLast
                     rootCanonical params absP of
                Inl e \<Rightarrow> Inl e
              | Inr (Continue, state3) \<Rightarrow>
                  lexicalTraversal read resolveLinkCanonical params rootCanonical absP
                    (Suc idx) rest state3
              | Inr (Break, state3) \<Rightarrow> Inr state3
              | Inr (ResolveLink, state3) \<Rightarrow>
                  (case resolveAndApplySymlinkHop state3 rootCanonical (p_boundaryLabel params)
                          resolveLinkCanonical of
                     Inl e \<Rightarrow> Inl e
                   | Inr state4 \<Rightarrow>
                       lexicalTraversal read resolveLinkCanonical params rootCanonical absP
                         (Suc idx) rest state4)))"

definition resolveLinkTarget :: "path \<Rightarrow> link_target \<Rightarrow> path" where
  "resolveLinkTarget dir linkTarget =
     (case linkTarget of
        AbsoluteTarget p \<Rightarrow> path_resolve p
      | RelativeTarget segs \<Rightarrow> path_resolve_from dir segs)"

definition resolveSymlinkHopPath :: "fs_ops \<Rightarrow> path \<Rightarrow> error + path" where
  "resolveSymlinkHopPath ops symlinkPath =
     (case realpath ops symlinkPath of
        Inr real \<Rightarrow> Inr (path_resolve real)
      | Inl e \<Rightarrow>
          if \<not> isNotFoundPathError (NodeError e) then Inl (NodeError e)
          else
            (case readlink ops symlinkPath of
               Inl e2 \<Rightarrow> Inl (NodeError e2)
             | Inr linkTarget \<Rightarrow>
                 resolvePathViaExistingAncestor ops
                   (resolveLinkTarget (path_dirname symlinkPath) linkTarget)))"

definition resolveSymlinkHopPathSync :: "fs_ops \<Rightarrow> path \<Rightarrow> error + path" where
  "resolveSymlinkHopPathSync ops symlinkPath =
     (case realpath ops symlinkPath of
        Inr real \<Rightarrow> Inr (path_resolve real)
      | Inl e \<Rightarrow>
          if \<not> isNotFoundPathError (NodeError e) then Inl (NodeError e)
          else
            (case readlink ops symlinkPath of
               Inl e2 \<Rightarrow> Inl (NodeError e2)
             | Inr linkTarget \<Rightarrow>
                 Inr (resolvePathViaExistingAncestorSync ops
                        (resolveLinkTarget (path_dirname symlinkPath) linkTarget))))"

definition toResolvedKind :: "stats \<Rightarrow> ResolvedBoundaryPathKind" where
  "toResolvedKind st =
     (if isFile st then KFile
      else if isDirectory st then KDirectory
      else if isSymbolicLink st then KSymlink
      else KOther)"

definition getPathKind :: "fs_ops \<Rightarrow> path \<Rightarrow> bool \<Rightarrow> error + PathKind" where
  "getPathKind ops absP preserveFinal =
     (case (if preserveFinal then lstat ops absP else stat ops absP) of
        Inr st \<Rightarrow> Inr \<lparr>pk_exists = True, pk_kind = toResolvedKind st\<rparr>
      | Inl e \<Rightarrow>
          if isNotFoundPathError (NodeError e) then Inr \<lparr>pk_exists = False, pk_kind = Missing\<rparr>
          else Inl (NodeError e))"

definition getPathKindSync :: "fs_ops \<Rightarrow> path \<Rightarrow> bool \<Rightarrow> error + PathKind" where
  "getPathKindSync ops absP preserveFinal =
     (case (if preserveFinal then lstat ops absP else stat ops absP) of
        Inr st \<Rightarrow> Inr \<lparr>pk_exists = True, pk_kind = toResolvedKind st\<rparr>
      | Inl e \<Rightarrow>
          if isNotFoundPathError (NodeError e) then Inr \<lparr>pk_exists = False, pk_kind = Missing\<rparr>
          else Inl (NodeError e))"

definition resolveBoundaryPathLexicalAsync ::
  "fs_ops \<Rightarrow> ResolveBoundaryPathParams \<Rightarrow> path \<Rightarrow> path \<Rightarrow> path \<Rightarrow> error + ResolvedBoundaryPath"
  where
  "resolveBoundaryPathLexicalAsync ops params absP rootP rootCanonical =
     (let state = createLexicalTraversalState params rootP rootCanonical absP in
      case lexicalTraversal (lstat ops) (resolveSymlinkHopPath ops) params rootCanonical absP
             0 (segments state) state of
        Inl e \<Rightarrow> Inl e
      | Inr state' \<Rightarrow>
          (case getPathKind ops absP (preserveFinalSymlink state') of
             Inl e \<Rightarrow> Inl e
           | Inr k \<Rightarrow> finalizeLexicalResolution params rootP rootCanonical absP state' k))"

definition resolveBoundaryPathLexicalSync ::
  "fs_ops \<Rightarrow> ResolveBoundaryPathParams \<Rightarrow> path \<Rightarrow> path \<Rightarrow> path \<Rightarrow> error + ResolvedBoundaryPath"
  where
  "resolveBoundaryPathLexicalSync ops params absP rootP rootCanonical =
     (let state = createLexicalTraversalState params rootP rootCanonical absP in
      case lexicalTraversal (lstat ops) (resolveSymlinkHopPathSync ops) params rootCanonical absP
             0 (segments state) state of
        Inl e \<Rightarrow> Inl e
      | Inr state' \<Rightarrow>
          (case getPathKindSync ops absP (preserveFinalSymlink state') of
             Inl e \<Rightarrow> Inl e
           | Inr k \<Rightarrow> finalizeLexicalResolution params rootP rootCanonical absP state' k))"

definition resolveCanonicalOutsideLexicalPath :: "path \<Rightarrow> path option \<Rightarrow> path" where
  "resolveCanonicalOutsideLexicalPath absP outsideLexicalCanonicalPath =
     (case outsideLexicalCanonicalPath of Some p \<Rightarrow> p | None \<Rightarrow> absP)"

definition pathEscapeError :: "string \<Rightarrow> path \<Rightarrow> path \<Rightarrow> error" where
  "pathEscapeError label rootP absP = PathEscapesError label rootP absP"

definition assertLexicalBoundaryOrCanonicalAlias ::
  "bool option \<Rightarrow> bool \<Rightarrow> path \<Rightarrow> path \<Rightarrow> string \<Rightarrow> path \<Rightarrow> path \<Rightarrow> error + unit" where
  "assertLexicalBoundaryOrCanonicalAlias skipCheck lexicalInside canonicalOutside rootCanonical
       label rootP absP =
     (if skipCheck = Some True \<or> lexicalInside then Inr ()
      else if isPathInside rootCanonical canonicalOutside then Inr ()
      else Inl (pathEscapeError label rootP absP))"

definition createBoundaryResolutionContext ::
  "ResolveBoundaryPathParams \<Rightarrow> path \<Rightarrow> path \<Rightarrow> path \<Rightarrow> path option
   \<Rightarrow> error + BoundaryResolutionContext" where
  "createBoundaryResolutionContext resolveParams rootP absP rootCanonical outsideLexicalCanonicalPath =
     (let lexicalInside = isPathInside rootP absP;
          canonicalOutside = resolveCanonicalOutsideLexicalPath absP outsideLexicalCanonicalPath
      in case assertLexicalBoundaryOrCanonicalAlias (p_skipLexicalRootCheck resolveParams)
                lexicalInside canonicalOutside rootCanonical (p_boundaryLabel resolveParams)
                rootP absP of
           Inl e \<Rightarrow> Inl e
         | Inr u \<Rightarrow>
             Inr \<lparr>c_rootPath = rootP,
                  c_absolutePath = absP,
                  c_rootCanonicalPath = rootCanonical,
                  c_lexicalInside = lexicalInside,
                  c_canonicalOutsideLexicalPath = canonicalOutside\<rparr>)"

definition buildOutsideLexicalBoundaryPath ::
  "string \<Rightarrow> path \<Rightarrow> path \<Rightarrow> path \<Rightarrow> path \<Rightarrow> PathKind \<Rightarrow> error + ResolvedBoundaryPath" where
  "buildOutsideLexicalBoundaryPath label rootCanonical absP canonicalOutside rootP k =
     (case assertInsideBoundary label rootCanonical canonicalOutside absP of
        Inl e \<Rightarrow> Inl e
      | Inr u \<Rightarrow> Inr (buildResolvedBoundaryPath absP canonicalOutside rootP rootCanonical k))"

definition resolveOutsideBoundaryPathAsync ::
  "fs_ops \<Rightarrow> string \<Rightarrow> BoundaryResolutionContext \<Rightarrow> error + ResolvedBoundaryPath option" where
  "resolveOutsideBoundaryPathAsync ops label context =
     (if c_lexicalInside context then Inr None
      else case getPathKind ops (c_absolutePath context) False of
             Inl e \<Rightarrow> Inl e
           | Inr k \<Rightarrow>
               (case buildOutsideLexicalBoundaryPath label (c_rootCanonicalPath context)
                       (c_absolutePath context) (c_canonicalOutsideLexicalPath context)
                       (c_rootPath context) k of
                  Inl e \<Rightarrow> Inl e
                | Inr r \<Rightarrow> Inr (Some r)))"

definition resolveOutsideBoundaryPathSync ::
  "fs_ops \<Rightarrow> string \<Rightarrow> BoundaryResolutionContext \<Rightarrow> error + ResolvedBoundaryPath option" where
  "resolveOutsideBoundaryPathSync ops label context =
     (if c_lexicalInside context then Inr None
      else case getPathKindSync ops (c_absolutePath context) False of
             Inl e \<Rightarrow> Inl e
           | Inr k \<Rightarrow>
               (case buildOutsideLexicalBoundaryPath label (c_rootCanonicalPath context)
                       (c_absolutePath context) (c_canonicalOutsideLexicalPath context)
                       (c_rootPath context) k of
                  Inl e \<Rightarrow> Inl e
                | Inr r \<Rightarrow> Inr (Some r)))"

definition resolveOutsideLexicalCanonicalPathAsync ::
  "fs_ops \<Rightarrow> path \<Rightarrow> path \<Rightarrow> error + path option" where
  "resolveOutsideLexicalCanonicalPathAsync ops rootP absP =
     (if isPathInside rootP absP then Inr None
      else case resolvePathViaExistingAncestor ops absP of
             Inl e \<Rightarrow> Inl e
           | Inr p \<Rightarrow> Inr (Some p))"

definition resolveOutsideLexicalCanonicalPathSync :: "fs_ops \<Rightarrow> path \<Rightarrow> path \<Rightarrow> path option" where
  "resolveOutsideLexicalCanonicalPathSync ops rootP absP =
     (if isPathInside rootP absP then None
      else Some (resolvePathViaExistingAncestorSync ops absP))"

definition resolveBoundaryPath ::
  "fs_ops \<Rightarrow> ResolveBoundaryPathParams \<Rightarrow> error + ResolvedBoundaryPath" where
  "resolveBoundaryPath ops params =
     (let rootP = path_resolve (p_rootPath params);
          absP = path_resolve (p_absolutePath params)
      in case (case p_rootCanonicalPath params of
                 Some rc \<Rightarrow> Inr (path_resolve rc)
               | None \<Rightarrow> resolvePathViaExistingAncestor ops rootP) of
           Inl e \<Rightarrow> Inl e
         | Inr rootCanonical \<Rightarrow>
             (case resolveOutsideLexicalCanonicalPathAsync ops rootP absP of
                Inl e \<Rightarrow> Inl e
              | Inr outsideLexicalCanonicalPath \<Rightarrow>
                  (case createBoundaryResolutionContext params rootP absP rootCanonical
                          outsideLexicalCanonicalPath of
                     Inl e \<Rightarrow> Inl e
                   | Inr context \<Rightarrow>
                       (case resolveOutsideBoundaryPathAsync ops (p_boundaryLabel params) context of
                          Inl e \<Rightarrow> Inl e
                        | Inr (Some outsideResult) \<Rightarrow> Inr outsideResult
                        | Inr None \<Rightarrow>
                            resolveBoundaryPathLexicalAsync ops params (c_absolutePath context)
                              (c_rootPath context) (c_rootCanonicalPath context)))))"

definition resolveBoundaryPathSync ::
  "fs_ops \<Rightarrow> ResolveBoundaryPathParams \<Rightarrow> error + ResolvedBoundaryPath" where
  "resolveBoundaryPathSync ops params =
     (let rootP = path_resolve (p_rootPath params);
          absP = path_resolve (p_absolutePath params);
          rootCanonical = (case p_rootCanonicalPath params of
                             Some rc \<Rightarrow> path_resolve rc
                           | None \<Rightarrow> resolvePathViaExistingAncestorSync ops rootP);
          outsideLexicalCanonicalPath = resolveOutsideLexicalCanonicalPathSync ops rootP absP
      in case createBoundaryResolutionContext params rootP absP rootCanonical
                outsideLexicalCanonicalPath of
           Inl e \<Rightarrow> Inl e
         | Inr context \<Rightarrow>
             (case resolveOutsideBoundaryPathSync ops (p_boundaryLabel params) context of
                Inl e \<Rightarrow> Inl e
              | Inr (Some outsideResult) \<Rightarrow> Inr outsideResult
              | Inr None \<Rightarrow>
                  resolveBoundaryPathLexicalSync ops params (c_absolutePath context)
                    (c_rootPath context) (c_rootCanonicalPath context)))"

section \<open>Effects of the verified opener\<close>

text \<open>The opener and the root-scoped helpers act on a filesystem that other tasks change
  between two calls, so every call site has its own answer: \<open>w_preLstat\<close> is what
  \<^verbatim>\<open>fs.lstat\<close> reports before the open and \<open>w_lstat\<close> what it reports after it, and
  likewise for the two \<^verbatim>\<open>fs.realpath\<close> calls of the write helper. A file handle is its
  descriptor number. Every function returns its outcome together with the list of the
  calls it made, in order. The home directory of the process (\<^verbatim>\<open>HOME\<close>,
  \<^verbatim>\<open>USERPROFILE\<close> or \<^verbatim>\<open>os.homedir()\<close>) is \<open>w_home\<close>. Two helpers of the repository
  that are not among the sources are answers of the world as well: \<^verbatim>\<open>expandHomePrefix\<close>
  (\<^verbatim>\<open>home-dir.js\<close>), a pure function of the path and the home directory, and the
  alias guard \<^verbatim>\<open>assertNoPathAliasEscape\<close> (\<^verbatim>\<open>path-alias-guards.js\<close>), whose answer is
  the error it throws, if any.\<close>

datatype open_flags = OPEN_READ_FLAGS | OPEN_WRITE_EXISTING_FLAGS | OPEN_WRITE_CREATE_FLAGS

datatype event =
  EvLstat path
| EvOpen path open_flags
| EvFstat nat
| EvRealpath path
| EvStat path
| EvReadFile nat
| EvMkdir path
| EvTruncate nat
| EvWriteFile nat string
| EvRm path
| EvClose nat

record io_world =
  w_rootRealpath :: "path \<Rightarrow> errno + path"
  w_home :: path
  w_homeRealpath :: "path \<Rightarrow> errno + path"
  w_expandHomePrefix :: "link_target \<Rightarrow> path \<Rightarrow> link_target"
  w_assertNoPathAliasEscape :: "path \<Rightarrow> path \<Rightarrow> error option"
  w_mkdir :: "path \<Rightarrow> errno option"
  w_preRealpath :: "path \<Rightarrow> errno + path"
  w_preLstat :: "path \<Rightarrow> errno + stats"
  w_open :: "path \<Rightarrow> open_flags \<Rightarrow> errno + nat"
  w_fstat :: "nat \<Rightarrow> errno + stats"
  w_lstat :: "path \<Rightarrow> errno + stats"
  w_realpath :: "path \<Rightarrow> errno + path"
  w_stat :: "path \<Rightarrow> errno + stats"
  w_readFile :: "nat \<Rightarrow> errno + string"
  w_truncate :: "nat \<Rightarrow> errno option"
  w_writeFile :: "nat \<Rightarrow> string \<Rightarrow> errno option"

type_synonym 'a io = "(error + 'a) \<times> event list"

definition io_return :: "'a \<Rightarrow> 'a io" where
  "io_return x = (Inr x, [])"

definition io_throw :: "error \<Rightarrow> 'a io" where
  "io_throw e = (Inl e, [])"

text \<open>A system call: the event is recorded, and an error code is thrown as a system error.\<close>

definition io_call :: "event \<Rightarrow> errno + 'a \<Rightarrow> 'a io" where
  "io_call ev answer =
     (case answer of Inl e \<Rightarrow> (Inl (NodeError e), [ev]) | Inr x \<Rightarrow> (Inr x, [ev]))"

definition io_call_unit :: "event \<Rightarrow> errno option \<Rightarrow> unit io" where
  "io_call_unit ev answer =
     (case answer of Some e \<Rightarrow> (Inl (NodeError e), [ev]) | None \<Rightarrow> (Inr (), [ev]))"

text \<open>A call whose failure is swallowed (\<^verbatim>\<open>.catch(() => {})\<close>).\<close>

definition io_emit :: "event \<Rightarrow> unit io" where
  "io_emit ev = (Inr (), [ev])"

definition io_then :: "'a io \<Rightarrow> ('a \<Rightarrow> 'b io) \<Rightarrow> 'b io" where
  "io_then m f =
     (case m of
        (Inl e, t) \<Rightarrow> (Inl e, t)
      | (Inr x, t) \<Rightarrow> (case f x of (r, t') \<Rightarrow> (r, t @ t')))"

definition io_catch :: "'a io \<Rightarrow> (error \<Rightarrow> 'a io) \<Rightarrow> 'a io" where
  "io_catch m handler =
     (case m of
        (Inl e, t) \<Rightarrow> (case handler e of (r, t') \<Rightarrow> (r, t @ t'))
      | (Inr x, t) \<Rightarrow> (Inr x, t))"

definition io_finally :: "'a io \<Rightarrow> event list \<Rightarrow> 'a io" where
  "io_finally m cleanup = (case m of (r, t) \<Rightarrow> (r, t @ cleanup))"

text \<open>Modelled from the spec: \<^verbatim>\<open>sameFileIdentity\<close> of \<^verbatim>\<open>file-identity.js\<close>, which is not
  among the sources: two observations ``report the same underlying file identity (device +
  inode)''.\<close>

definition sameFileIdentity :: "stats \<Rightarrow> stats \<Rightarrow> bool" where
  "sameFileIdentity a b = (st_dev a = st_dev b \<and> st_ino a = st_ino b)"

record SafeOpenResult =
  handle :: nat
  realPath :: path
  stat_of :: stats

record SafeLocalReadResult =
  r_buffer :: string
  r_realPath :: path
  r_stat :: stats

fun safeOpenErrorCode :: "error \<Rightarrow> SafeOpenErrorCode option" where
  "safeOpenErrorCode (SafeOpenError c m cause) = Some c"
| "safeOpenErrorCode _ = None"

section \<open>The verified opener\<close>

text \<open>The body of the second \<^verbatim>\<open>try\<close> of \<^verbatim>\<open>openVerifiedLocalFile\<close>. \<^verbatim>\<open>Promise.all\<close>
  starts both observations before either answer is looked at.\<close>

definition verifyOpenedLocalFile :: "io_world \<Rightarrow> path \<Rightarrow> bool option \<Rightarrow> nat \<Rightarrow> SafeOpenResult io"
  where
  "verifyOpenedLocalFile w filePath rejectHardlinks h =
     (case (w_fstat w h, w_lstat w filePath) of
        (Inl e, l) \<Rightarrow> (Inl (NodeError e), [EvFstat h, EvLstat filePath])
      | (Inr st, Inl e) \<Rightarrow> (Inl (NodeError e), [EvFstat h, EvLstat filePath])
      | (Inr st, Inr lst) \<Rightarrow>
          io_then (Inr (), [EvFstat h, EvLstat filePath]) (\<lambda>u.
            if isSymbolicLink lst then io_throw (SafeOpenError Symlink ''symlink not allowed'' None)
            else if \<not> isFile st then io_throw (SafeOpenError NotFile ''not a file'' None)
            else if rejectHardlinks = Some True \<and> st_nlink st > 1
              then io_throw (SafeOpenError InvalidPath ''hardlinked path not allowed'' None)
            else if \<not> sameFileIdentity st lst
              then io_throw (SafeOpenError PathMismatch ''path changed during read'' None)
            else
              io_then (io_call (EvRealpath filePath) (w_realpath w filePath)) (\<lambda>real.
              io_then (io_call (EvStat real) (w_stat w real)) (\<lambda>realStat.
                if rejectHardlinks = Some True \<and> st_nlink realStat > 1
                  then io_throw (SafeOpenError InvalidPath ''hardlinked path not allowed'' None)
                else if \<not> sameFileIdentity st realStat
                  then io_throw (SafeOpenError PathMismatch ''path mismatch'' None)
                else io_return \<lparr>handle = h, realPath = real, stat_of = st\<rparr>))))"

definition openVerifiedLocalFile :: "io_world \<Rightarrow> path \<Rightarrow> bool option \<Rightarrow> SafeOpenResult io" where
  "openVerifiedLocalFile w filePath rejectHardlinks =
     io_then
       (io_catch
          (io_then (io_call (EvLstat filePath) (w_preLstat w filePath)) (\<lambda>preStat.
             if isDirectory preStat then io_throw (SafeOpenError NotFile ''not a file'' None)
             else io_return ()))
          (\<lambda>err. if isSafeOpenError err then io_throw err else io_return ()))
       (\<lambda>u.
     io_then
       (io_catch (io_call (EvOpen filePath OPEN_READ_FLAGS) (w_open w filePath OPEN_READ_FLAGS))
          (\<lambda>err.
             if isNotFoundPathError err then io_throw (SafeOpenError NotFound ''file not found'' None)
             else if isSymlinkOpenError err
               then io_throw (SafeOpenError Symlink ''symlink open blocked'' (Some err))
             else if hasNodeErrorCode err EISDIR
               then io_throw (SafeOpenError NotFile ''not a file'' None)
             else io_throw err))
       (\<lambda>h.
     io_catch (verifyOpenedLocalFile w filePath rejectHardlinks h)
       (\<lambda>err.
          io_then (io_emit (EvClose h)) (\<lambda>u.
            if isSafeOpenError err then io_throw err
            else if isNotFoundPathError err
              then io_throw (SafeOpenError NotFound ''file not found'' None)
            else io_throw err))))"

section \<open>Root-scoped helpers\<close>

text \<open>On segment lists a trailing separator changes nothing.\<close>

definition ensureTrailingSep :: "path \<Rightarrow> path" where
  "ensureTrailingSep v = v"

text \<open>\<^verbatim>\<open>expandRelativePathWithHome\<close>: the home directory is canonicalised, and kept as
  it is when that fails; then the home prefix of the path is expanded.\<close>

definition expandRelativePathWithHome :: "io_world \<Rightarrow> link_target \<Rightarrow> link_target io" where
  "expandRelativePathWithHome w relPath =
     io_then
       (io_catch (io_call (EvRealpath (w_home w)) (w_homeRealpath w (w_home w)))
          (\<lambda>err. io_return (w_home w)))
       (\<lambda>home. io_return (w_expandHomePrefix w relPath home))"

definition resolvePathWithinRoot ::
  "io_world \<Rightarrow> path \<Rightarrow> link_target \<Rightarrow> (path \<times> path \<times> path) io" where
  "resolvePathWithinRoot w rootDir relPath =
     io_then
       (io_catch (io_call (EvRealpath rootDir) (w_rootRealpath w rootDir))
          (\<lambda>err. if isNotFoundPathError err
                  then io_throw (SafeOpenError NotFound ''root dir not found'' None)
                  else io_throw err))
       (\<lambda>rootReal.
     io_then (expandRelativePathWithHome w relPath)
       (\<lambda>expanded.
          let rootWithSep = ensureTrailingSep rootReal;
              resolved = resolveLinkTarget rootWithSep expanded
          in if \<not> isPathInside rootWithSep resolved
             then io_throw (SafeOpenError OutsideWorkspace ''file is outside workspace root'' None)
             else io_return (rootReal, rootWithSep, resolved)))"

record OpenFileWithinRootParams =
  o_rootDir :: path
  o_relativePath :: link_target
  o_rejectHardlinks :: "bool option"

definition openFileWithinRoot :: "io_world \<Rightarrow> OpenFileWithinRootParams \<Rightarrow> SafeOpenResult io" where
  "openFileWithinRoot w params =
     io_then (resolvePathWithinRoot w (o_rootDir params) (o_relativePath params))
       (\<lambda>(rootReal, rootWithSep, resolved).
     io_then
       (io_catch (openVerifiedLocalFile w resolved None)
          (\<lambda>err.
             if isSafeOpenError err then
               (if safeOpenErrorCode err = Some NotFound then io_throw err
                else io_throw (SafeOpenError InvalidPath
                                 ''path is not a regular file under root'' (Some err)))
             else io_throw err))
       (\<lambda>opened.
          if o_rejectHardlinks params \<noteq> Some False \<and> st_nlink (stat_of opened) > 1 then
            io_then (io_emit (EvClose (handle opened))) (\<lambda>u.
              io_throw (SafeOpenError InvalidPath ''hardlinked path not allowed'' None))
          else if \<not> isPathInside rootWithSep (realPath opened) then
            io_then (io_emit (EvClose (handle opened))) (\<lambda>u.
              io_throw (SafeOpenError OutsideWorkspace ''file is outside workspace root'' None))
          else io_return opened))"

text \<open>The size is checked before the content is read. The message of the source also
  quotes the limit and the size; the model keeps its fixed part.\<close>

definition readOpenedFileSafely ::
  "io_world \<Rightarrow> SafeOpenResult \<Rightarrow> int option \<Rightarrow> SafeLocalReadResult io" where
  "readOpenedFileSafely w opened maxBytes =
     (if (case maxBytes of None \<Rightarrow> False | Some m \<Rightarrow> st_size (stat_of opened) > m) then
        io_throw (SafeOpenError TooLarge ''file exceeds limit'' None)
      else
        io_then (io_call (EvReadFile (handle opened)) (w_readFile w (handle opened))) (\<lambda>buffer.
          io_return \<lparr>r_buffer = buffer, r_realPath = realPath opened, r_stat = stat_of opened\<rparr>))"

record ReadFileWithinRootParams =
  rd_rootDir :: path
  rd_relativePath :: link_target
  rd_rejectHardlinks :: "bool option"
  rd_maxBytes :: "int option"

definition readFileWithinRoot :: "io_world \<Rightarrow> ReadFileWithinRootParams \<Rightarrow> SafeLocalReadResult io"
  where
  "readFileWithinRoot w params =
     io_then
       (openFileWithinRoot w
          \<lparr>o_rootDir = rd_rootDir params, o_relativePath = rd_relativePath params,
           o_rejectHardlinks = rd_rejectHardlinks params\<rparr>)
       (\<lambda>opened.
          io_finally (readOpenedFileSafely w opened (rd_maxBytes params))
            [EvClose (handle opened)])"

definition readLocalFileSafely :: "io_world \<Rightarrow> path \<Rightarrow> int option \<Rightarrow> SafeLocalReadResult io" where
  "readLocalFileSafely w filePath maxBytes =
     io_then (openVerifiedLocalFile w filePath None)
       (\<lambda>opened.
          io_finally (readOpenedFileSafely w opened maxBytes) [EvClose (handle opened)])"

text \<open>\<^verbatim>\<open>writeFileWithinRoot\<close>, in the order of the source: the real path used for the I/O,
  the open (an existing file first, a fresh one when there is none), then the checks and
  the write.\<close>

record WriteFileWithinRootParams =
  wr_rootDir :: path
  wr_relativePath :: link_target
  wr_data :: string
  wr_mkdir :: "bool option"

definition resolveWriteIoPath :: "io_world \<Rightarrow> path \<Rightarrow> path \<Rightarrow> path io" where
  "resolveWriteIoPath w rootWithSep resolved =
     io_catch
       (io_then (io_call (EvRealpath resolved) (w_preRealpath w resolved)) (\<lambda>resolvedRealPath.
          if \<not> isPathInside rootWithSep resolvedRealPath
          then io_throw (SafeOpenError OutsideWorkspace ''file is outside workspace root'' None)
          else io_return resolvedRealPath))
       (\<lambda>err. if isSafeOpenError err then io_throw err
               else if \<not> isNotFoundPathError err then io_throw err
               else io_return resolved)"

definition openForWrite :: "io_world \<Rightarrow> path \<Rightarrow> (nat \<times> bool) io" where
  "openForWrite w ioPath =
     io_catch
       (io_catch
          (io_then (io_call (EvOpen ioPath OPEN_WRITE_EXISTING_FLAGS)
                      (w_open w ioPath OPEN_WRITE_EXISTING_FLAGS))
             (\<lambda>h. io_return (h, False)))
          (\<lambda>err. if \<not> isNotFoundPathError err then io_throw err
                  else io_then (io_call (EvOpen ioPath OPEN_WRITE_CREATE_FLAGS)
                                  (w_open w ioPath OPEN_WRITE_CREATE_FLAGS))
                         (\<lambda>h. io_return (h, True))))
       (\<lambda>err. if isNotFoundPathError err
                 then io_throw (SafeOpenError NotFound ''file not found'' None)
               else if isSymlinkOpenError err
                 then io_throw (SafeOpenError InvalidPath ''symlink open blocked'' (Some err))
               else io_throw err)"

text \<open>The \<^verbatim>\<open>try\<close> block after the open, with its \<^verbatim>\<open>catch\<close>. The source has one handler
  that removes the file only when \<^verbatim>\<open>openedRealPath\<close> has been assigned; here the handler
  sits where the assignment is, so an error thrown earlier passes through untouched.\<close>

definition verifyAndWrite ::
  "io_world \<Rightarrow> path \<Rightarrow> path \<Rightarrow> nat \<Rightarrow> bool \<Rightarrow> string \<Rightarrow> unit io" where
  "verifyAndWrite w rootWithSep ioPath h createdForWrite dat =
     (case (w_fstat w h, w_lstat w ioPath) of
        (Inl e, l) \<Rightarrow> (Inl (NodeError e), [EvFstat h, EvLstat ioPath])
      | (Inr st, Inl e) \<Rightarrow> (Inl (NodeError e), [EvFstat h, EvLstat ioPath])
      | (Inr st, Inr lst) \<Rightarrow>
          io_then (Inr (), [EvFstat h, EvLstat ioPath]) (\<lambda>u.
            if isSymbolicLink lst \<or> \<not> isFile st
              then io_throw (SafeOpenError InvalidPath
                               ''path is not a regular file under root'' None)
            else if st_nlink st > 1
              then io_throw (SafeOpenError InvalidPath ''hardlinked path not allowed'' None)
            else if \<not> sameFileIdentity st lst
              then io_throw (SafeOpenError PathMismatch ''path changed during write'' None)
            else
              io_then (io_call (EvRealpath ioPath) (w_realpath w ioPath)) (\<lambda>openedRealPath.
                io_catch
                  (io_then (io_call (EvStat openedRealPath) (w_stat w openedRealPath))
                     (\<lambda>realStat.
                        if \<not> sameFileIdentity st realStat
                          then io_throw (SafeOpenError PathMismatch ''path mismatch'' None)
                        else if st_nlink realStat > 1
                          then io_throw (SafeOpenError InvalidPath
                                           ''hardlinked path not allowed'' None)
                        else if \<not> isPathInside rootWithSep openedRealPath
                          then io_throw (SafeOpenError OutsideWorkspace
                                           ''file is outside workspace root'' None)
                        else
                          io_then (if \<not> createdForWrite
                                   then io_call_unit (EvTruncate h) (w_truncate w h)
                                   else io_return ())
                            (\<lambda>u. io_call_unit (EvWriteFile h dat) (w_writeFile w h dat))))
                  (\<lambda>err.
                     io_then (if createdForWrite \<and> isSafeOpenError err
                              then io_emit (EvRm openedRealPath) else io_return ())
                       (\<lambda>u. io_throw err)))))"

definition writeFileWithinRoot :: "io_world \<Rightarrow> WriteFileWithinRootParams \<Rightarrow> unit io" where
  "writeFileWithinRoot w params =
     io_then (resolvePathWithinRoot w (wr_rootDir params) (wr_relativePath params))
       (\<lambda>(rootReal, rootWithSep, resolved).
     io_then
       (case w_assertNoPathAliasEscape w resolved rootReal of
          Some err \<Rightarrow> io_throw (SafeOpenError InvalidPath ''path alias escape blocked'' (Some err))
        | None \<Rightarrow> io_return ())
       (\<lambda>u.
     io_then
       (if wr_mkdir params \<noteq> Some False
        then io_call_unit (EvMkdir (path_dirname resolved)) (w_mkdir w (path_dirname resolved))
        else io_return ())
       (\<lambda>u.
     io_then (resolveWriteIoPath w rootWithSep resolved) (\<lambda>ioPath.
     io_then (openForWrite w ioPath) (\<lambda>(h, createdForWrite).
       io_finally (verifyAndWrite w rootWithSep ioPath h createdForWrite (wr_data params))
         [EvClose h])))))"

section \<open>The boundary file facade\<close>

datatype SafeOpenSyncResult = SyncOpened path nat stats | SyncFailed string "error option"

datatype BoundaryFileOpenResult =
  BoundaryOpened path nat stats path
| BoundaryFailed string "error option"

record OpenVerifiedFileSyncParams =
  v_filePath :: path
  v_resolvedPath :: path
  v_rejectHardlinks :: bool
  v_maxBytes :: "int option"
  v_allowedType :: "string option"

record OpenBoundaryFileParams =
  b_absolutePath :: path
  b_rootPath :: path
  b_boundaryLabel :: string
  b_rootRealPath :: "path option"
  b_maxBytes :: "int option"
  b_rejectHardlinks :: "bool option"
  b_allowedType :: "string option"
  b_skipLexicalRootCheck :: "bool option"
  b_aliasPolicy :: "BoundaryPathAliasPolicy option"

record ResolvedBoundaryFilePath =
  f_absolutePath :: path
  f_resolvedPath :: path
  f_rootRealPath :: path

definition toBoundaryValidationError :: "error \<Rightarrow> BoundaryFileOpenResult" where
  "toBoundaryValidationError err = BoundaryFailed ''validation'' (Some err)"

definition mapResolvedBoundaryPath :: "path \<Rightarrow> ResolvedBoundaryPath \<Rightarrow> ResolvedBoundaryFilePath"
  where
  "mapResolvedBoundaryPath absP resolved =
     \<lparr>f_absolutePath = absP,
      f_resolvedPath = canonicalPath resolved,
      f_rootRealPath = rootCanonicalPath resolved\<rparr>"

text \<open>\<^verbatim>\<open>resolveBoundaryFilePathGeneric\<close>: a thrown error and a rejected promise both end in
  the validation result. The two members of the returned union are the two sides of the
  sum.\<close>

definition resolveBoundaryFilePathGeneric ::
  "path \<Rightarrow> (path \<Rightarrow> error + ResolvedBoundaryPath)
   \<Rightarrow> ResolvedBoundaryFilePath + BoundaryFileOpenResult" where
  "resolveBoundaryFilePathGeneric absInput resolve =
     (let absP = path_resolve absInput in
      case resolve absP of
        Inl err \<Rightarrow> Inr (toBoundaryValidationError err)
      | Inr v \<Rightarrow> Inl (mapResolvedBoundaryPath absP v))"

text \<open>\<^verbatim>\<open>openVerifiedFileSync\<close> of \<^verbatim>\<open>safe-open-sync.js\<close> is not among the sources; the
  facade takes it as the parameter \<open>openVerified\<close>.\<close>

definition openBoundaryFileResolved ::
  "(OpenVerifiedFileSyncParams \<Rightarrow> error + SafeOpenSyncResult) \<Rightarrow> ResolvedBoundaryFilePath
   \<Rightarrow> int option \<Rightarrow> bool option \<Rightarrow> string option \<Rightarrow> error + BoundaryFileOpenResult" where
  "openBoundaryFileResolved openVerified rf maxBytes rejectHardlinks allowedType =
     (case openVerified
             \<lparr>v_filePath = f_absolutePath rf,
              v_resolvedPath = f_resolvedPath rf,
              v_rejectHardlinks = (case rejectHardlinks of Some b \<Rightarrow> b | None \<Rightarrow> True),
              v_maxBytes = maxBytes,
              v_allowedType = allowedType\<rparr> of
        Inl err \<Rightarrow> Inl err
      | Inr (SyncFailed reason err) \<Rightarrow> Inr (BoundaryFailed reason err)
      | Inr (SyncOpened p fd st) \<Rightarrow> Inr (BoundaryOpened p fd st (f_rootRealPath rf)))"

definition openBoundaryFileSync ::
  "fs_ops \<Rightarrow> (OpenVerifiedFileSyncParams \<Rightarrow> error + SafeOpenSyncResult)
   \<Rightarrow> OpenBoundaryFileParams \<Rightarrow> error + BoundaryFileOpenResult" where
  "openBoundaryFileSync ops openVerified params =
     (case resolveBoundaryFilePathGeneric (b_absolutePath params)
             (\<lambda>absP. resolveBoundaryPathSync ops
                \<lparr>p_absolutePath = absP,
                 p_rootPath = b_rootPath params,
                 p_boundaryLabel = b_boundaryLabel params,
                 p_intent = None,
                 p_policy = None,
                 p_skipLexicalRootCheck = b_skipLexicalRootCheck params,
                 p_rootCanonicalPath = b_rootRealPath params\<rparr>) of
        Inr failed \<Rightarrow> Inr failed
      | Inl resolved \<Rightarrow>
          openBoundaryFileResolved openVerified resolved (b_maxBytes params)
            (b_rejectHardlinks params) (b_allowedType params))"

definition openBoundaryFile ::
  "fs_ops \<Rightarrow> (OpenVerifiedFileSyncParams \<Rightarrow> error + SafeOpenSyncResult)
   \<Rightarrow> OpenBoundaryFileParams \<Rightarrow> error + BoundaryFileOpenResult" where
  "openBoundaryFile ops openVerified params =
     (case resolveBoundaryFilePathGeneric (b_absolutePath params)
             (\<lambda>absP. resolveBoundaryPath ops
                \<lparr>p_absolutePath = absP,
                 p_rootPath = b_rootPath params,
                 p_boundaryLabel = b_boundaryLabel params,
                 p_intent = None,
                 p_policy = b_aliasPolicy params,
                 p_skipLexicalRootCheck = b_skipLexicalRootCheck params,
                 p_rootCanonicalPath = b_rootRealPath params\<rparr>) of
        Inr failed \<Rightarrow> Inr failed
      | Inl resolved \<Rightarrow>
          openBoundaryFileResolved openVerified resolved (b_maxBytes params)
            (b_rejectHardlinks params) (b_allowedType params))"

text \<open>Modelled from the spec: \<^verbatim>\<open>openVerifiedFileSync\<close> of \<^verbatim>\<open>safe-open-sync.js\<close>, which is
  not among the sources, after the seven steps of the verified opener: the directory
  pre-check, the open, the paired identity check of the handle against the path, the
  rejection of links and of anything but a regular file, the link count when
  \<open>rejectHardlinks\<close> is set, the identity check against the real path, and the result. A
  failure carries the name the error taxonomy gives it; another system error is thrown.\<close>

definition openVerifiedFileSync ::
  "io_world \<Rightarrow> OpenVerifiedFileSyncParams \<Rightarrow> error + SafeOpenSyncResult" where
  "openVerifiedFileSync w params =
     (let filePath = v_filePath params in
      if (case w_preLstat w filePath of Inr pre \<Rightarrow> isDirectory pre | Inl e \<Rightarrow> False)
        then Inr (SyncFailed ''not-file'' None)
      else case w_open w filePath OPEN_READ_FLAGS of
        Inl e \<Rightarrow>
          if isNotFoundPathError (NodeError e) then Inr (SyncFailed ''not-found'' None)
          else if isSymlinkOpenError (NodeError e)
            then Inr (SyncFailed ''symlink'' (Some (NodeError e)))
          else Inl (NodeError e)
      | Inr fd \<Rightarrow>
          (case w_fstat w fd of
             Inl e \<Rightarrow> Inl (NodeError e)
           | Inr st \<Rightarrow>
               (case w_lstat w filePath of
                  Inl e \<Rightarrow> Inl (NodeError e)
                | Inr lst \<Rightarrow>
                    if \<not> sameFileIdentity st lst then Inr (SyncFailed ''path-mismatch'' None)
                    else if isSymbolicLink st then Inr (SyncFailed ''symlink'' None)
                    else if \<not> isFile st then Inr (SyncFailed ''not-file'' None)
                    else if v_rejectHardlinks params \<and> st_nlink st > 1
                      then Inr (SyncFailed ''invalid-path'' None)
                    else
                      (case w_realpath w filePath of
                         Inl e \<Rightarrow> Inl (NodeError e)
                       | Inr real \<Rightarrow>
                           (case w_stat w real of
                              Inl e \<Rightarrow> Inl (NodeError e)
                            | Inr realStat \<Rightarrow>
                                if \<not> sameFileIdentity st realStat
                                  then Inr (SyncFailed ''path-mismatch'' None)
                                else Inr (SyncOpened real fd st))))))"

section \<open>A small filesystem\<close>

text \<open>A filesystem state given by a table from paths to nodes, with the answers of the
  system calls computed from it: a file carries inode number, link count and size; a
  symbolic link carries its inode number and its absolute target. The root directory is
  always there. Following links is bounded as the kernel bounds it.\<close>

datatype fs_node = FileNode nat nat int | DirNode nat | LinkNode nat path

type_synonym fs_table = "(path \<times> fs_node) list"

definition lookupNode :: "fs_table \<Rightarrow> path \<Rightarrow> fs_node option" where
  "lookupNode t p = (if p = [] then Some (DirNode 1) else map_of t p)"

fun nodeStats :: "fs_node \<Rightarrow> stats" where
  "nodeStats (FileNode i n sz) =
     \<lparr>st_type = RegularFile, st_dev = 1, st_ino = i, st_nlink = n, st_size = sz\<rparr>"
| "nodeStats (DirNode i) =
     \<lparr>st_type = Directory, st_dev = 1, st_ino = i, st_nlink = 2, st_size = 0\<rparr>"
| "nodeStats (LinkNode i tgt) =
     \<lparr>st_type = SymbolicLink, st_dev = 1, st_ino = i, st_nlink = 1, st_size = 0\<rparr>"

fun followPath :: "fs_table \<Rightarrow> nat \<Rightarrow> path \<Rightarrow> string list \<Rightarrow> errno + path" where
  "followPath t fuel cur [] = Inr cur"
| "followPath t fuel cur (s # rest) =
     (case map_of t (cur @ [s]) of
        None \<Rightarrow> Inl ENOENT
      | Some (DirNode i) \<Rightarrow> followPath t fuel (cur @ [s]) rest
      | Some (FileNode i n sz) \<Rightarrow> if rest = [] then Inr (cur @ [s]) else Inl ENOTDIR
      | Some (LinkNode i tgt) \<Rightarrow>
          (case fuel of 0 \<Rightarrow> Inl ELOOP | Suc f \<Rightarrow> followPath t f [] (tgt @ rest)))"

definition table_realpath :: "fs_table \<Rightarrow> path \<Rightarrow> errno + path" where
  "table_realpath t p = followPath t 40 [] p"

definition table_stat :: "fs_table \<Rightarrow> path \<Rightarrow> errno + stats" where
  "table_stat t p =
     (case followPath t 40 [] p of
        Inl e \<Rightarrow> Inl e
      | Inr q \<Rightarrow> (case lookupNode t q of None \<Rightarrow> Inl ENOENT | Some n \<Rightarrow> Inr (nodeStats n)))"

definition table_lookup_nofollow :: "fs_table \<Rightarrow> path \<Rightarrow> errno + fs_node" where
  "table_lookup_nofollow t p =
     (if p = [] then Inr (DirNode 1)
      else case followPath t 40 [] (butlast p) of
        Inl e \<Rightarrow> Inl e
      | Inr d \<Rightarrow>
          (case lookupNode t d of
             Some (DirNode i) \<Rightarrow>
               (case map_of t (d @ [last p]) of None \<Rightarrow> Inl ENOENT | Some n \<Rightarrow> Inr n)
           | _ \<Rightarrow> Inl ENOTDIR))"

definition table_lstat :: "fs_table \<Rightarrow> path \<Rightarrow> errno + stats" where
  "table_lstat t p =
     (case table_lookup_nofollow t p of Inl e \<Rightarrow> Inl e | Inr n \<Rightarrow> Inr (nodeStats n))"

definition table_readlink :: "fs_table \<Rightarrow> path \<Rightarrow> errno + link_target" where
  "table_readlink t p =
     (case table_lookup_nofollow t p of
        Inl e \<Rightarrow> Inl e
      | Inr (LinkNode i tgt) \<Rightarrow> Inr (AbsoluteTarget tgt)
      | Inr n \<Rightarrow> Inl EINVAL)"

definition ops_of_table :: "fs_table \<Rightarrow> fs_ops" where
  "ops_of_table t =
     \<lparr>lstat = table_lstat t, stat = table_stat t,
      realpath = table_realpath t, readlink = table_readlink t\<rparr>"

section \<open>Concrete filesystem states\<close>

text \<open>One state used to run the resolver: the workspace \<^verbatim>\<open>/work\<close> with a file, a
  directory, a link \<^verbatim>\<open>/work/sub\<close> to that directory and a link \<^verbatim>\<open>/work/link\<close> to
  \<^verbatim>\<open>/etc\<close>; and a root \<^verbatim>\<open>/b\<close> that is also reachable as \<^verbatim>\<open>/a\<close>, holding the dangling
  link \<^verbatim>\<open>/b/dangling\<close>.\<close>

definition fs_demo :: fs_table where
  "fs_demo =
     [([''work''], DirNode 2),
      ([''work'', ''a.txt''], FileNode 3 1 20),
      ([''work'', ''dir''], DirNode 4),
      ([''work'', ''link''], LinkNode 5 [''etc'']),
      ([''work'', ''sub''], LinkNode 10 [''work'', ''dir'']),
      ([''etc''], DirNode 6),
      ([''a''], LinkNode 7 [''b'']),
      ([''b''], DirNode 8),
      ([''b'', ''dangling''], LinkNode 9 [''nowhere''])]"

definition resolveParams ::
  "path \<Rightarrow> path \<Rightarrow> BoundaryPathAliasPolicy option \<Rightarrow> ResolveBoundaryPathParams" where
  "resolveParams absP rootP pol =
     \<lparr>p_absolutePath = absP, p_rootPath = rootP, p_boundaryLabel = ''workspace root'',
      p_intent = None, p_policy = pol, p_skipLexicalRootCheck = None,
      p_rootCanonicalPath = None\<rparr>"

definition out_txt_resolved :: ResolvedBoundaryPath where
  "out_txt_resolved =
     \<lparr>absolutePath = [''work'', ''sub'', ''out.txt''],
      canonicalPath = [''work'', ''dir'', ''out.txt''],
      rootPath = [''work''], rootCanonicalPath = [''work''],
      relativePath = [''dir'', ''out.txt''],
      exists = False, kind = Missing\<rparr>"

text \<open>The file of scenario D, a directory, a symbolic link, a file with two names, and a
  file that has just been created.\<close>

definition a_txt_stat :: stats where
  "a_txt_stat = \<lparr>st_type = RegularFile, st_dev = 1, st_ino = 3, st_nlink = 1, st_size = 20\<rparr>"

definition dir_stat :: stats where
  "dir_stat = \<lparr>st_type = Directory, st_dev = 1, st_ino = 4, st_nlink = 2, st_size = 0\<rparr>"

definition link_stat :: stats where
  "link_stat = \<lparr>st_type = SymbolicLink, st_dev = 1, st_ino = 5, st_nlink = 1, st_size = 0\<rparr>"

definition hard_stat :: stats where
  "hard_stat = \<lparr>st_type = RegularFile, st_dev = 1, st_ino = 11, st_nlink = 2, st_size = 5\<rparr>"

definition new_file_stat :: stats where
  "new_file_stat = \<lparr>st_type = RegularFile, st_dev = 1, st_ino = 12, st_nlink = 1, st_size = 0\<rparr>"

definition replaced_stat :: stats where
  "replaced_stat = \<lparr>st_type = RegularFile, st_dev = 1, st_ino = 13, st_nlink = 1, st_size = 20\<rparr>"

text \<open>A world in which nothing changes during the call: every path and the handle show the
  same object \<open>st\<close>, every path is its own real path, no path has a home prefix to
  expand, and every call succeeds. The other
  worlds are this one with single answers replaced.\<close>

definition quiet_world :: "stats \<Rightarrow> io_world" where
  "quiet_world st =
     \<lparr>w_rootRealpath = (\<lambda>p. Inr p),
      w_home = [''home'', ''user''],
      w_homeRealpath = (\<lambda>p. Inr p),
      w_expandHomePrefix = (\<lambda>t home. t),
      w_assertNoPathAliasEscape = (\<lambda>p r. None),
      w_mkdir = (\<lambda>p. None),
      w_preRealpath = (\<lambda>p. Inr p),
      w_preLstat = (\<lambda>p. Inr st),
      w_open = (\<lambda>p fl. Inr 3),
      w_fstat = (\<lambda>h. Inr st),
      w_lstat = (\<lambda>p. Inr st),
      w_realpath = (\<lambda>p. Inr p),
      w_stat = (\<lambda>p. Inr st),
      w_readFile = (\<lambda>h. Inr ''0123456789abcdefghij''),
      w_truncate = (\<lambda>h. None),
      w_writeFile = (\<lambda>h d. None)\<rparr>"

text \<open>The write target \<^verbatim>\<open>/work/d/new.txt\<close> does not exist and is created by the call.
  Handle and path show the new file; then another task puts a link to
  \<^verbatim>\<open>/etc/victim.conf\<close> in its place, so the real path asked for next is that of the
  other file.\<close>

definition victim_stat :: stats where
  "victim_stat = \<lparr>st_type = RegularFile, st_dev = 1, st_ino = 99, st_nlink = 1, st_size = 100\<rparr>"

definition victim_world :: io_world where
  "victim_world =
     (quiet_world new_file_stat)
       \<lparr>w_preRealpath := (\<lambda>p. Inl ENOENT),
        w_open := (\<lambda>p fl. if fl = OPEN_WRITE_CREATE_FLAGS then Inr 3 else Inl ENOENT),
        w_realpath := (\<lambda>p. Inr [''etc'', ''victim.conf'']),
        w_stat := (\<lambda>p. Inr victim_stat)\<rparr>"

definition fs_hard :: fs_table where
  "fs_hard = [([''work''], DirNode 2), ([''work'', ''hard.txt''], FileNode 11 2 5)]"

definition hard_opened :: SafeOpenResult where
  "hard_opened = \<lparr>handle = 3, realPath = [''work'', ''hard.txt''], stat_of = hard_stat\<rparr>"

definition openParams :: "path \<Rightarrow> string list \<Rightarrow> bool option \<Rightarrow> OpenFileWithinRootParams" where
  "openParams root rel rh =
     \<lparr>o_rootDir = root, o_relativePath = RelativeTarget rel, o_rejectHardlinks = rh\<rparr>"

definition readParams ::
  "path \<Rightarrow> string list \<Rightarrow> bool option \<Rightarrow> int option \<Rightarrow> ReadFileWithinRootParams" where
  "readParams root rel rh mb =
     \<lparr>rd_rootDir = root, rd_relativePath = RelativeTarget rel, rd_rejectHardlinks = rh,
      rd_maxBytes = mb\<rparr>"

definition writeParams :: "path \<Rightarrow> string list \<Rightarrow> string \<Rightarrow> WriteFileWithinRootParams" where
  "writeParams root rel dat =
     \<lparr>wr_rootDir = root, wr_relativePath = RelativeTarget rel, wr_data = dat, wr_mkdir = None\<rparr>"

definition boundaryParams ::
  "path \<Rightarrow> path \<Rightarrow> bool option \<Rightarrow> BoundaryPathAliasPolicy option \<Rightarrow> OpenBoundaryFileParams" where
  "boundaryParams absP rootP rh pol =
     \<lparr>b_absolutePath = absP, b_rootPath = rootP, b_boundaryLabel = ''workspace root'',
      b_rootRealPath = None, b_maxBytes = None, b_rejectHardlinks = rh, b_allowedType = None,
      b_skipLexicalRootCheck = None, b_aliasPolicy = pol\<rparr>"

section \<open>Notions used in the statements\<close>

text \<open>The classification of a failure: the code of a \<open>SafeOpenError\<close>, and nothing for a
  result or for another error.\<close>

definition failureCode :: "'a io \<Rightarrow> SafeOpenErrorCode option" where
  "failureCode m = (case fst m of Inl e \<Rightarrow> safeOpenErrorCode e | Inr x \<Rightarrow> None)"

text \<open>The parameters \<^verbatim>\<open>readFileWithinRoot\<close> hands to \<^verbatim>\<open>openFileWithinRoot\<close>, and the
  parameters the facade hands to the resolver.\<close>

definition openParamsOf :: "ReadFileWithinRootParams \<Rightarrow> OpenFileWithinRootParams" where
  "openParamsOf params =
     \<lparr>o_rootDir = rd_rootDir params, o_relativePath = rd_relativePath params,
      o_rejectHardlinks = rd_rejectHardlinks params\<rparr>"

definition facadeResolveParams ::
  "OpenBoundaryFileParams \<Rightarrow> BoundaryPathAliasPolicy option \<Rightarrow> ResolveBoundaryPathParams" where
  "facadeResolveParams params pol =
     \<lparr>p_absolutePath = path_resolve (b_absolutePath params),
      p_rootPath = b_rootPath params,
      p_boundaryLabel = b_boundaryLabel params,
      p_intent = None,
      p_policy = pol,
      p_skipLexicalRootCheck = b_skipLexicalRootCheck params,
      p_rootCanonicalPath = b_rootRealPath params\<rparr>"

text \<open>The calls that change or remove data.\<close>

fun destructive :: "event \<Rightarrow> bool" where
  "destructive (EvTruncate h) = True"
| "destructive (EvWriteFile h d) = True"
| "destructive (EvRm p) = True"
| "destructive ev = False"

text \<open>The checks of the write helper, in two groups: those made on the handle and the path
  before the real path is asked for, and those made on the real path.\<close>

definition firstWriteChecksPass :: "io_world \<Rightarrow> path \<Rightarrow> nat \<Rightarrow> bool" where
  "firstWriteChecksPass w ioPath h =
     (case (w_fstat w h, w_lstat w ioPath) of
        (Inr st, Inr lst) \<Rightarrow>
          \<not> isSymbolicLink lst \<and> isFile st \<and> \<not> st_nlink st > 1 \<and> sameFileIdentity st lst
      | _ \<Rightarrow> False)"

definition laterWriteChecksPass :: "io_world \<Rightarrow> path \<Rightarrow> nat \<Rightarrow> path \<Rightarrow> bool" where
  "laterWriteChecksPass w rootWithSep h real =
     (case (w_fstat w h, w_stat w real) of
        (Inr st, Inr realStat) \<Rightarrow>
          sameFileIdentity st realStat \<and> \<not> st_nlink realStat > 1 \<and> isPathInside rootWithSep real
      | _ \<Rightarrow> False)"

text \<open>A normalised path has no empty, \<^verbatim>\<open>.\<close> or \<^verbatim>\<open>..\<close> segment.\<close>

definition normalPath :: "string list \<Rightarrow> bool" where
  "normalPath p = list_all (\<lambda>s. s \<noteq> [] \<and> s \<noteq> ''.'' \<and> s \<noteq> ''..'') p"

text \<open>The canonical form of an existing path below the root, hop by hop as the spec
  describes the traversal: a segment that exists and is no link extends the canonical
  form; a link is replaced by its real path, which must lie inside the canonical root.
  The result is the lexical cursor and the canonical form reached; there is none when a
  segment does not exist or a link leaves the root.\<close>

fun canonicalOfExisting ::
  "fs_ops \<Rightarrow> path \<Rightarrow> path \<Rightarrow> path \<Rightarrow> string list \<Rightarrow> (path \<times> path) option" where
  "canonicalOfExisting ops rc lx cn [] = Some (lx, cn)"
| "canonicalOfExisting ops rc lx cn (s # rest) =
     (case lstat ops (lx @ [s]) of
        Inl e \<Rightarrow> None
      | Inr st \<Rightarrow>
          if \<not> isSymbolicLink st then canonicalOfExisting ops rc (lx @ [s]) (cn @ [s]) rest
          else
            (case realpath ops (lx @ [s]) of
               Inl e \<Rightarrow> None
             | Inr t \<Rightarrow>
                 if prefix rc (path_resolve t)
                 then canonicalOfExisting ops rc (path_resolve t) (path_resolve t) rest
                 else None))"

text \<open>None of the paths \<open>anc/x1\<close>, \<open>anc/x1/x2\<close>, ... exists, neither for \<^verbatim>\<open>lstat\<close> nor
  for \<^verbatim>\<open>fs.existsSync\<close>.\<close>

definition allMissing :: "fs_ops \<Rightarrow> path \<Rightarrow> string list \<Rightarrow> bool" where
  "allMissing ops anc xs =
     list_all (\<lambda>q. lstat ops (anc @ q) = Inl ENOENT \<and> \<not> existsSync ops (anc @ q))
       (tl (prefixes xs))"

text \<open>The canonical root of a call: the caller's pre-computed one, or the real path of the
  root, which then has to exist.\<close>

definition rootCanonicalIs :: "fs_ops \<Rightarrow> ResolveBoundaryPathParams \<Rightarrow> path \<Rightarrow> bool" where
  "rootCanonicalIs ops params rc =
     (case p_rootCanonicalPath params of
        Some r \<Rightarrow> rc = path_resolve r
      | None \<Rightarrow>
          (case (lstat ops (path_resolve (p_rootPath params)),
                 stat ops (path_resolve (p_rootPath params)),
                 realpath ops (path_resolve (p_rootPath params))) of
             (Inr st0, Inr st1, Inr raw) \<Rightarrow> rc = path_resolve raw
           | _ \<Rightarrow> False))"

text \<open>The result for a path that does not exist.\<close>

definition missingResult :: "path \<Rightarrow> path \<Rightarrow> path \<Rightarrow> path \<Rightarrow> ResolvedBoundaryPath" where
  "missingResult absP canonical rootP rc =
     \<lparr>absolutePath = absP, canonicalPath = canonical, rootPath = rootP,
      rootCanonicalPath = rc, relativePath = relativeInsideRoot rc canonical,
      exists = False, kind = Missing\<rparr>"

section \<open>Normalised paths\<close>

lemma normalPath_simps [simp]:
  "normalPath []"
  "normalPath (s # p) \<longleftrightarrow> s \<noteq> [] \<and> s \<noteq> ''.'' \<and> s \<noteq> ''..'' \<and> normalPath p"
  "normalPath (p @ q) \<longleftrightarrow> normalPath p \<and> normalPath q"
  by (auto simp: normalPath_def)

lemma normalize_normal: "normalPath p \<Longrightarrow> normalizeSegments acc p = acc @ p"
  by (induction p arbitrary: acc) auto

lemma normalPath_butlast: "normalPath p \<Longrightarrow> normalPath (butlast p)"
  by (induction p) auto

lemma normalize_is_normal: "normalPath acc \<Longrightarrow> normalPath (normalizeSegments acc p)"
  by (induction p arbitrary: acc) (auto simp: normalPath_butlast)

lemma path_resolve_normal [simp]: "normalPath (path_resolve p)"
  by (simp add: path_resolve_def normalize_is_normal)

lemma path_resolve_id: "normalPath p \<Longrightarrow> path_resolve p = p"
  by (simp add: path_resolve_def normalize_normal)

lemma path_resolve_from_id: "normalPath b \<Longrightarrow> normalPath s \<Longrightarrow> path_resolve_from b s = b @ s"
  by (simp add: path_resolve_from_def normalize_normal)

lemma path_join_id: "normalPath b \<Longrightarrow> normalPath [s] \<Longrightarrow> path_join b s = b @ [s]"
  by (simp add: path_join_def normalize_normal)

lemma path_relative_append: "path_relative r (r @ s) = s"
proof (induction r)
  case Nil
  show ?case by (cases s) simp_all
next
  case (Cons a r)
  then show ?case by simp
qed

lemma isPathInside_normal:
  "normalPath r \<Longrightarrow> normalPath t \<Longrightarrow> isPathInside r t = prefix r t"
  by (simp add: isPathInside_def path_resolve_id)

lemma canonicalOfExisting_normal:
  "canonicalOfExisting ops rc lx cn pre = Some (lx', cn') \<Longrightarrow>
   normalPath lx \<Longrightarrow> normalPath cn \<Longrightarrow> normalPath pre \<Longrightarrow> prefix rc cn \<Longrightarrow>
     normalPath lx' \<and> normalPath cn' \<and> prefix rc cn'"
  by (induction pre arbitrary: lx cn)
     (auto split: sum.splits if_splits)

lemma path_resolve_from_normal [simp]: "normalPath (path_resolve_from b s)"
  by (simp add: path_resolve_from_def normalize_is_normal)

lemma resolveVia_normal:
  "resolvePathViaExistingAncestor ops p = Inr q \<Longrightarrow> normalPath q"
  by (auto simp: resolvePathViaExistingAncestor_def Let_def
        split: sum.splits prod.splits bool.splits if_splits)

lemma resolveViaSync_normal: "normalPath (resolvePathViaExistingAncestorSync ops p)"
  by (auto simp: resolvePathViaExistingAncestorSync_def Let_def
        split: sum.splits prod.splits if_splits)

lemma hop_normal: "resolveSymlinkHopPath ops p = Inr t \<Longrightarrow> normalPath t"
  by (auto simp: resolveSymlinkHopPath_def split: sum.splits if_splits dest: resolveVia_normal)

lemma hopSync_normal: "resolveSymlinkHopPathSync ops p = Inr t \<Longrightarrow> normalPath t"
  by (auto simp: resolveSymlinkHopPathSync_def resolveViaSync_normal split: sum.splits if_splits)

lemma readLexicalStat_cursor:
  "readLexicalStat st idx rc params absP rd = Inr (x, st') \<Longrightarrow>
     normalPath (canonicalCursor st) \<Longrightarrow> normalPath (canonicalCursor st')"
  by (auto simp: readLexicalStat_def handleLexicalStatReadFailure_def
        handleLexicalLstatFailure_def applyMissingSuffixToCanonicalCursor_def Let_def
        split: sum.splits if_splits prod.splits bool.splits)

lemma disposition_cursor:
  "handleLexicalStatDisposition st isLink seg lastSeg rc params absP = Inr (d, st') \<Longrightarrow>
     normalPath (canonicalCursor st) \<Longrightarrow> normalPath (canonicalCursor st')"
  by (auto simp: handleLexicalStatDisposition_def advanceCanonicalCursorForSegment_def Let_def
        split: sum.splits if_splits)

lemma applyHop_cursor:
  "resolveAndApplySymlinkHop st rc label hop = Inr st' \<Longrightarrow>
     (\<And>p t. hop p = Inr t \<Longrightarrow> normalPath t) \<Longrightarrow> normalPath (canonicalCursor st')"
  by (auto simp: resolveAndApplySymlinkHop_def applyResolvedSymlinkHop_def
        split: sum.splits if_splits)

lemma traversal_normal:
  assumes "lexicalTraversal rd hop params rc absP idx rest st = Inr st'"
    and "normalPath (canonicalCursor st)"
    and "\<And>p t. hop p = Inr t \<Longrightarrow> normalPath t"
  shows "normalPath (canonicalCursor st')"
  using assms
proof (induction rest arbitrary: idx st)
  case Nil
  then show ?case by simp
next
  case (Cons seg rest)
  let ?s1 = "st\<lparr>lexicalCursor := path_join (lexicalCursor st) seg\<rparr>"
  from Cons.prems(1) obtain x s2 where
    r: "readLexicalStat ?s1 idx rc params absP rd = Inr (x, s2)"
    by (auto simp: Let_def split: sum.splits)
  have n2: "normalPath (canonicalCursor s2)"
    using readLexicalStat_cursor [OF r] Cons.prems(2) by simp
  show ?case
  proof (cases x)
    case None
    with Cons.prems(1) r n2 show ?thesis by (simp add: Let_def)
  next
    case (Some stt)
    from Cons.prems(1) r Some obtain d s3 where
      dd: "handleLexicalStatDisposition s2 (isSymbolicLink stt) seg
             (idx = length (segments st) - 1) rc params absP = Inr (d, s3)"
      by (auto simp: Let_def split: sum.splits)
    have n3: "normalPath (canonicalCursor s3)"
      using disposition_cursor [OF dd n2] .
    show ?thesis
    proof (cases d)
      case Continue
      with Cons.prems(1) r Some dd
      have "lexicalTraversal rd hop params rc absP (Suc idx) rest s3 = Inr st'"
        by (simp add: Let_def)
      from Cons.IH [OF this n3 Cons.prems(3)] show ?thesis .
    next
      case Break
      with Cons.prems(1) r Some dd n3 show ?thesis by (simp add: Let_def)
    next
      case ResolveLink
      with Cons.prems(1) r Some dd obtain s4 where
        h: "resolveAndApplySymlinkHop s3 rc (p_boundaryLabel params) hop = Inr s4"
        and t: "lexicalTraversal rd hop params rc absP (Suc idx) rest s4 = Inr st'"
        by (auto simp: Let_def split: sum.splits)
      have n4: "normalPath (canonicalCursor s4)"
        using applyHop_cursor [OF h Cons.prems(3)] .
      from Cons.IH [OF t n4 Cons.prems(3)] show ?thesis .
    qed
  qed
qed

lemma lexicalAsync_normal:
  "resolveBoundaryPathLexicalAsync ops params absP rootP rc = Inr r \<Longrightarrow> normalPath rc \<Longrightarrow>
     normalPath (canonicalPath r) \<and> rootCanonicalPath r = rc"
  unfolding resolveBoundaryPathLexicalAsync_def Let_def
  by (auto simp: finalizeLexicalResolution_def buildResolvedBoundaryPath_def
        createLexicalTraversalState_def Let_def
        split: sum.splits dest!: traversal_normal dest: hop_normal)

lemma lexicalSync_normal:
  "resolveBoundaryPathLexicalSync ops params absP rootP rc = Inr r \<Longrightarrow> normalPath rc \<Longrightarrow>
     normalPath (canonicalPath r) \<and> rootCanonicalPath r = rc"
  unfolding resolveBoundaryPathLexicalSync_def Let_def
  by (auto simp: finalizeLexicalResolution_def buildResolvedBoundaryPath_def
        createLexicalTraversalState_def Let_def
        split: sum.splits dest!: traversal_normal dest: hopSync_normal)

lemma context_normal:
  "createBoundaryResolutionContext params rootP absP rc outside = Inr ctx \<Longrightarrow>
     normalPath absP \<Longrightarrow> normalPath rc \<Longrightarrow> (\<And>p. outside = Some p \<Longrightarrow> normalPath p) \<Longrightarrow>
     normalPath (c_canonicalOutsideLexicalPath ctx) \<and> c_rootCanonicalPath ctx = rc \<and>
     c_absolutePath ctx = absP \<and> c_rootPath ctx = rootP"
  by (auto simp: createBoundaryResolutionContext_def Let_def
        resolveCanonicalOutsideLexicalPath_def split: sum.splits option.splits)

lemma outsideAsync_normal:
  "resolveOutsideBoundaryPathAsync ops label ctx = Inr (Some r) \<Longrightarrow>
     canonicalPath r = c_canonicalOutsideLexicalPath ctx \<and>
     rootCanonicalPath r = c_rootCanonicalPath ctx"
  by (auto simp: resolveOutsideBoundaryPathAsync_def buildOutsideLexicalBoundaryPath_def
        buildResolvedBoundaryPath_def split: if_splits sum.splits)

lemma outsideSync_normal:
  "resolveOutsideBoundaryPathSync ops label ctx = Inr (Some r) \<Longrightarrow>
     canonicalPath r = c_canonicalOutsideLexicalPath ctx \<and>
     rootCanonicalPath r = c_rootCanonicalPath ctx"
  by (auto simp: resolveOutsideBoundaryPathSync_def buildOutsideLexicalBoundaryPath_def
        buildResolvedBoundaryPath_def split: if_splits sum.splits)

lemma resolve_async_normal:
  assumes "resolveBoundaryPath ops params = Inr r"
  shows "normalPath (rootCanonicalPath r) \<and> normalPath (canonicalPath r)"
proof -
  let ?rootP = "path_resolve (p_rootPath params)"
  let ?absP = "path_resolve (p_absolutePath params)"
  from assms obtain rc where rc: "(case p_rootCanonicalPath params of
                 Some rc \<Rightarrow> Inr (path_resolve rc)
               | None \<Rightarrow> resolvePathViaExistingAncestor ops ?rootP) = Inr rc"
    by (auto simp: resolveBoundaryPath_def Let_def split: sum.splits)
  then have nrc: "normalPath rc"
    by (auto split: option.splits dest: resolveVia_normal)
  from assms rc obtain outside where
    out: "resolveOutsideLexicalCanonicalPathAsync ops ?rootP ?absP = Inr outside"
    by (auto simp: resolveBoundaryPath_def Let_def split: sum.splits)
  then have nout: "\<And>p. outside = Some p \<Longrightarrow> normalPath p"
    by (auto simp: resolveOutsideLexicalCanonicalPathAsync_def
          split: if_splits sum.splits dest: resolveVia_normal)
  from assms rc out obtain ctx where
    ctx: "createBoundaryResolutionContext params ?rootP ?absP rc outside = Inr ctx"
    by (auto simp: resolveBoundaryPath_def Let_def split: sum.splits)
  note c = context_normal [OF ctx _ nrc nout, simplified]
  from assms rc out ctx have
    "resolveOutsideBoundaryPathAsync ops (p_boundaryLabel params) ctx = Inr (Some r) \<or>
     resolveBoundaryPathLexicalAsync ops params (c_absolutePath ctx) (c_rootPath ctx)
       (c_rootCanonicalPath ctx) = Inr r"
    by (auto simp: resolveBoundaryPath_def Let_def split: sum.splits option.splits)
  then show ?thesis
    using c nrc by (auto dest: outsideAsync_normal lexicalAsync_normal)
qed

lemma resolve_sync_normal:
  assumes "resolveBoundaryPathSync ops params = Inr r"
  shows "normalPath (rootCanonicalPath r) \<and> normalPath (canonicalPath r)"
proof -
  let ?rootP = "path_resolve (p_rootPath params)"
  let ?absP = "path_resolve (p_absolutePath params)"
  let ?rc = "case p_rootCanonicalPath params of
                             Some rc \<Rightarrow> path_resolve rc
                           | None \<Rightarrow> resolvePathViaExistingAncestorSync ops ?rootP"
  let ?outside = "resolveOutsideLexicalCanonicalPathSync ops ?rootP ?absP"
  have nrc: "normalPath ?rc"
    by (auto split: option.splits simp: resolveViaSync_normal)
  have nout: "\<And>p. ?outside = Some p \<Longrightarrow> normalPath p"
    by (auto simp: resolveOutsideLexicalCanonicalPathSync_def resolveViaSync_normal
          split: if_splits)
  from assms obtain ctx where
    ctx: "createBoundaryResolutionContext params ?rootP ?absP ?rc ?outside = Inr ctx"
    by (auto simp: resolveBoundaryPathSync_def Let_def split: sum.splits)
  note c = context_normal [OF ctx _ nrc nout, simplified]
  from assms ctx have
    "resolveOutsideBoundaryPathSync ops (p_boundaryLabel params) ctx = Inr (Some r) \<or>
     resolveBoundaryPathLexicalSync ops params (c_absolutePath ctx) (c_rootPath ctx)
       (c_rootCanonicalPath ctx) = Inr r"
    by (auto simp: resolveBoundaryPathSync_def Let_def split: sum.splits option.splits)
  then show ?thesis
    using c nrc by (auto dest: outsideSync_normal lexicalSync_normal)
qed

section \<open>Containment of the resolved path\<close>

lemma buildOutside_inside:
  "buildOutsideLexicalBoundaryPath label rc absP co rootP k = Inr r
   \<Longrightarrow> isPathInside (rootCanonicalPath r) (canonicalPath r)"
  by (auto simp: buildOutsideLexicalBoundaryPath_def assertInsideBoundary_def
        buildResolvedBoundaryPath_def split: if_splits sum.splits)

lemma finalize_inside:
  "finalizeLexicalResolution params rootP rc absP state k = Inr r
   \<Longrightarrow> isPathInside (rootCanonicalPath r) (canonicalPath r)"
  by (auto simp: finalizeLexicalResolution_def assertLexicalCursorInsideBoundary_def
        assertInsideBoundary_def buildResolvedBoundaryPath_def split: if_splits sum.splits)

lemma lexicalAsync_inside:
  "resolveBoundaryPathLexicalAsync ops params absP rootP rc = Inr r
   \<Longrightarrow> isPathInside (rootCanonicalPath r) (canonicalPath r)"
  unfolding resolveBoundaryPathLexicalAsync_def Let_def
  by (auto split: sum.splits dest: finalize_inside)

lemma lexicalSync_inside:
  "resolveBoundaryPathLexicalSync ops params absP rootP rc = Inr r
   \<Longrightarrow> isPathInside (rootCanonicalPath r) (canonicalPath r)"
  unfolding resolveBoundaryPathLexicalSync_def Let_def
  by (auto split: sum.splits dest: finalize_inside)

lemma outsideAsync_inside:
  "resolveOutsideBoundaryPathAsync ops label ctx = Inr (Some r)
   \<Longrightarrow> isPathInside (rootCanonicalPath r) (canonicalPath r)"
  unfolding resolveOutsideBoundaryPathAsync_def
  by (auto split: if_splits sum.splits dest: buildOutside_inside)

lemma outsideSync_inside:
  "resolveOutsideBoundaryPathSync ops label ctx = Inr (Some r)
   \<Longrightarrow> isPathInside (rootCanonicalPath r) (canonicalPath r)"
  unfolding resolveOutsideBoundaryPathSync_def
  by (auto split: if_splits sum.splits dest: buildOutside_inside)

text \<open>
  Claim C1 (containment postcondition). For every filesystem state, every root and every
  input path, with any alias policy: when \<^verbatim>\<open>resolveBoundaryPath\<close> or
  \<^verbatim>\<open>resolveBoundaryPathSync\<close> returns a result, the returned \<open>canonicalPath\<close> lies inside
  the returned \<open>rootCanonicalPath\<close>: both are normalised, and the segments of the root
  are a prefix of those of the path, so the path is a descendant of the root or equal to
  it. The result is built only behind \<^verbatim>\<open>assertInsideBoundary\<close>, on the lexical branch and
  on the branch through the existing ancestor alike, so this also holds when trailing
  segments do not exist and when a final symbolic link is kept by the alias policy.
\<close>

theorem resolve_containment:
  "(resolveBoundaryPath ops params = Inr r
      \<longrightarrow> isPathInside (rootCanonicalPath r) (canonicalPath r) \<and>
          prefix (rootCanonicalPath r) (canonicalPath r)) \<and>
   (resolveBoundaryPathSync ops params = Inr r
      \<longrightarrow> isPathInside (rootCanonicalPath r) (canonicalPath r) \<and>
          prefix (rootCanonicalPath r) (canonicalPath r))"
proof (intro conjI impI)
  assume a: "resolveBoundaryPath ops params = Inr r"
  then show i: "isPathInside (rootCanonicalPath r) (canonicalPath r)"
    unfolding resolveBoundaryPath_def Let_def
    by (auto split: sum.splits option.splits dest: outsideAsync_inside lexicalAsync_inside)
  with resolve_async_normal [OF a] show "prefix (rootCanonicalPath r) (canonicalPath r)"
    by (simp add: isPathInside_normal)
next
  assume s: "resolveBoundaryPathSync ops params = Inr r"
  then show i: "isPathInside (rootCanonicalPath r) (canonicalPath r)"
    unfolding resolveBoundaryPathSync_def Let_def
    by (auto split: sum.splits option.splits dest: outsideSync_inside lexicalSync_inside)
  with resolve_sync_normal [OF s] show "prefix (rootCanonicalPath r) (canonicalPath r)"
    by (simp add: isPathInside_normal)
qed

theorem resolve_containment_witness:
  "resolveBoundaryPath (ops_of_table fs_demo)
     (resolveParams [''work'', ''sub'', ''out.txt''] [''work''] None) = Inr out_txt_resolved \<and>
   resolveBoundaryPathSync (ops_of_table fs_demo)
     (resolveParams [''work'', ''sub'', ''out.txt''] [''work''] None) = Inr out_txt_resolved \<and>
   isPathInside (rootCanonicalPath out_txt_resolved) (canonicalPath out_txt_resolved) \<and>
   prefix (rootCanonicalPath out_txt_resolved) (canonicalPath out_txt_resolved)"
proof -
  have a: "resolveBoundaryPath (ops_of_table fs_demo)
     (resolveParams [''work'', ''sub'', ''out.txt''] [''work''] None) = Inr out_txt_resolved"
    by code_simp
  have s: "resolveBoundaryPathSync (ops_of_table fs_demo)
     (resolveParams [''work'', ''sub'', ''out.txt''] [''work''] None) = Inr out_txt_resolved"
    by code_simp
  from a s resolve_containment [of "ops_of_table fs_demo"
      "resolveParams [''work'', ''sub'', ''out.txt''] [''work''] None" out_txt_resolved]
  show ?thesis by simp
qed

section \<open>The blocking and the promise-based resolver\<close>

text \<open>
  Claim C2 (blocking/suspension equivalence). The claim is that on the same input and the
  same filesystem state \<^verbatim>\<open>resolveBoundaryPath\<close> and \<^verbatim>\<open>resolveBoundaryPathSync\<close> end the
  same way. The two walk up to the deepest existing ancestor with different tests:
  \<^verbatim>\<open>pathExists\<close> asks \<^verbatim>\<open>lstat\<close>, for which a dangling link exists, and the blocking
  variant asks \<^verbatim>\<open>fs.existsSync\<close>, for which it does not. With the root \<^verbatim>\<open>/b\<close>, also
  reachable as \<^verbatim>\<open>/a\<close>, and the dangling link \<^verbatim>\<open>/b/dangling\<close>, the input \<^verbatim>\<open>/a/dangling\<close>
  is rejected as a path escape by the promise-based resolver and resolved to
  \<^verbatim>\<open>/b/dangling\<close> by the blocking one.
\<close>

theorem sync_async_divergence:
  "resolveBoundaryPath (ops_of_table fs_demo) (resolveParams [''a'', ''dangling''] [''b''] None)
     = Inl (PathEscapesError ''workspace root'' [''b''] [''a'', ''dangling'']) \<and>
   resolveBoundaryPathSync (ops_of_table fs_demo) (resolveParams [''a'', ''dangling''] [''b''] None)
     = Inr \<lparr>absolutePath = [''a'', ''dangling''], canonicalPath = [''b'', ''dangling''],
            rootPath = [''b''], rootCanonicalPath = [''b''], relativePath = [''dangling''],
            exists = False, kind = Missing\<rparr>"
  by code_simp

section \<open>Paths whose trailing segments do not exist\<close>

lemma notfound_ENOENT [simp]: "isNotFoundPathError (NodeError e) \<longleftrightarrow> e = ENOENT"
  by (simp add: isNotFoundPathError_def)

lemma missing_step:
  assumes "lstat ops (lx @ [m]) = Inl ENOENT"
    and "normalPath rc" "normalPath lx" "normalPath cn" "prefix rc cn"
    and "normalPath (m # suf)"
    and "drop idx (segments state) = m # suf"
    and "lexicalCursor state = lx" "canonicalCursor state = cn"
  shows "lexicalTraversal (lstat ops) hop params rc absP idx (m # suf) state =
           Inr (state\<lparr>lexicalCursor := lx @ [m], canonicalCursor := cn @ m # suf\<rparr>)"
proof -
  let ?s1 = "state\<lparr>lexicalCursor := lx @ [m]\<rparr>"
  have j: "path_join (lexicalCursor state) m = lx @ [m]"
    using assms by (simp add: path_join_id)
  have a: "applyMissingSuffixToCanonicalCursor ?s1 idx rc params absP =
             Inr (?s1\<lparr>canonicalCursor := cn @ m # suf\<rparr>)"
    using assms
    by (simp add: applyMissingSuffixToCanonicalCursor_def Let_def path_resolve_from_id
          assertLexicalCursorInsideBoundary_def assertInsideBoundary_def isPathInside_normal)
  have r: "readLexicalStat ?s1 idx rc params absP (lstat ops) =
             Inr (None, ?s1\<lparr>canonicalCursor := cn @ m # suf\<rparr>)"
    using assms(1) a
    by (simp add: readLexicalStat_def handleLexicalStatReadFailure_def
          handleLexicalLstatFailure_def)
  show ?thesis
    using j r by (simp add: Let_def)
qed

lemma not_last:
  assumes "drop idx xs = s # pre @ m # suf"
  shows "idx \<noteq> length xs - 1" and "drop (Suc idx) xs = pre @ m # suf"
proof -
  have "length (drop idx xs) = Suc (length pre + Suc (length suf))"
    using assms by simp
  then show "idx \<noteq> length xs - 1" by simp
  show "drop (Suc idx) xs = pre @ m # suf"
    using assms by (metis drop_Suc list.sel(3) tl_drop)
qed

lemma plain_step:
  assumes "lstat ops (lx @ [s]) = Inr st" "\<not> isSymbolicLink st"
    and "normalPath rc" "normalPath lx" "normalPath cn" "prefix rc cn" "normalPath [s]"
    and "idx \<noteq> length (segments state) - 1"
    and "lexicalCursor state = lx" "canonicalCursor state = cn"
  shows "lexicalTraversal (lstat ops) hop params rc absP idx (s # rest) state =
           lexicalTraversal (lstat ops) hop params rc absP (Suc idx) rest
             (state\<lparr>lexicalCursor := lx @ [s], canonicalCursor := cn @ [s]\<rparr>)"
proof -
  let ?s1 = "state\<lparr>lexicalCursor := lx @ [s]\<rparr>"
  have j: "path_join (lexicalCursor state) s = lx @ [s]"
    using assms by (simp add: path_join_id)
  have r: "readLexicalStat ?s1 idx rc params absP (lstat ops) = Inr (Some st, ?s1)"
    using assms(1) by (simp add: readLexicalStat_def)
  have d: "handleLexicalStatDisposition ?s1 (isSymbolicLink st) s False rc params absP =
             Inr (Continue, ?s1\<lparr>canonicalCursor := cn @ [s]\<rparr>)"
    using assms
    by (simp add: handleLexicalStatDisposition_def advanceCanonicalCursorForSegment_def Let_def
          path_resolve_from_id assertLexicalCursorInsideBoundary_def assertInsideBoundary_def
          isPathInside_normal)
  show ?thesis
    using j r d assms(8) by (simp add: Let_def)
qed

lemma link_step:
  assumes "lstat ops (lx @ [s]) = Inr st" "isSymbolicLink st"
    and "hop (lx @ [s]) = Inr t" "normalPath t" "prefix rc t"
    and "normalPath rc" "normalPath lx" "normalPath [s]"
    and "idx \<noteq> length (segments state) - 1"
    and "lexicalCursor state = lx"
  shows "lexicalTraversal (lstat ops) hop params rc absP idx (s # rest) state =
           lexicalTraversal (lstat ops) hop params rc absP (Suc idx) rest
             (state\<lparr>lexicalCursor := t, canonicalCursor := t\<rparr>)"
proof -
  let ?s1 = "state\<lparr>lexicalCursor := lx @ [s]\<rparr>"
  have j: "path_join (lexicalCursor state) s = lx @ [s]"
    using assms by (simp add: path_join_id)
  have r: "readLexicalStat ?s1 idx rc params absP (lstat ops) = Inr (Some st, ?s1)"
    using assms(1) by (simp add: readLexicalStat_def)
  have d: "handleLexicalStatDisposition ?s1 (isSymbolicLink st) s False rc params absP =
             Inr (ResolveLink, ?s1)"
    using assms by (simp add: handleLexicalStatDisposition_def)
  have h: "resolveAndApplySymlinkHop ?s1 rc (p_boundaryLabel params) hop =
             Inr (?s1\<lparr>canonicalCursor := t, lexicalCursor := t\<rparr>)"
    using assms
    by (simp add: resolveAndApplySymlinkHop_def applyResolvedSymlinkHop_def isPathInside_normal)
  have e: "?s1\<lparr>canonicalCursor := t, lexicalCursor := t\<rparr> =
           state\<lparr>lexicalCursor := t, canonicalCursor := t\<rparr>"
    by simp
  show ?thesis
    using j r d h e assms(9) by (simp add: Let_def)
qed

lemma traversal_missing_suffix:
  assumes "canonicalOfExisting ops rc lx cn pre = Some (lx', cn')"
    and "lstat ops (lx' @ [m]) = Inl ENOENT"
    and "normalPath rc" "normalPath lx" "normalPath cn" "prefix rc cn"
    and "normalPath pre" "normalPath (m # suf)"
    and "drop idx (segments state) = pre @ m # suf"
    and "lexicalCursor state = lx" "canonicalCursor state = cn"
    and "\<And>p t. realpath ops p = Inr t \<Longrightarrow> hop p = Inr (path_resolve t)"
  shows "lexicalTraversal (lstat ops) hop params rc absP idx (pre @ m # suf) state =
           Inr (state\<lparr>lexicalCursor := lx' @ [m], canonicalCursor := cn' @ m # suf\<rparr>)"
  using assms
proof (induction pre arbitrary: idx state lx cn)
  case Nil
  then show ?case
    using missing_step [of ops lx m rc cn suf idx state hop params absP] by simp
next
  case (Cons s pre)
  from Cons.prems(9) have nl: "idx \<noteq> length (segments state) - 1"
    and dr: "drop (Suc idx) (segments state) = pre @ m # suf"
    using not_last [of idx "segments state" s pre m suf] by simp_all
  from Cons.prems(1) obtain st where st: "lstat ops (lx @ [s]) = Inr st"
    by (auto split: sum.splits)
  show ?case
  proof (cases "isSymbolicLink st")
    case False
    let ?s' = "state\<lparr>lexicalCursor := lx @ [s], canonicalCursor := cn @ [s]\<rparr>"
    from Cons.prems(1) st False
    have w: "canonicalOfExisting ops rc (lx @ [s]) (cn @ [s]) pre = Some (lx', cn')" by simp
    have step: "lexicalTraversal (lstat ops) hop params rc absP idx ((s # pre) @ m # suf) state =
          lexicalTraversal (lstat ops) hop params rc absP (Suc idx) (pre @ m # suf) ?s'"
      using plain_step [of ops lx s st rc cn idx state hop params absP "pre @ m # suf"]
        st False Cons.prems nl by simp
    have "lexicalTraversal (lstat ops) hop params rc absP (Suc idx) (pre @ m # suf) ?s' =
          Inr (?s'\<lparr>lexicalCursor := lx' @ [m], canonicalCursor := cn' @ m # suf\<rparr>)"
      using Cons.IH [of "lx @ [s]" "cn @ [s]" "Suc idx" ?s'] w Cons.prems dr by simp
    with step show ?thesis by simp
  next
    case True
    from Cons.prems(1) st True obtain t where rp: "realpath ops (lx @ [s]) = Inr t"
      and pf: "prefix rc (path_resolve t)"
      and w: "canonicalOfExisting ops rc (path_resolve t) (path_resolve t) pre = Some (lx', cn')"
      by (auto split: sum.splits if_splits)
    let ?t = "path_resolve t"
    let ?s' = "state\<lparr>lexicalCursor := ?t, canonicalCursor := ?t\<rparr>"
    have hp: "hop (lx @ [s]) = Inr ?t" using Cons.prems(12) rp by simp
    have step: "lexicalTraversal (lstat ops) hop params rc absP idx ((s # pre) @ m # suf) state =
          lexicalTraversal (lstat ops) hop params rc absP (Suc idx) (pre @ m # suf) ?s'"
      using link_step [of ops lx s st hop ?t rc idx state params absP "pre @ m # suf"]
        st True hp pf Cons.prems nl by simp
    have "lexicalTraversal (lstat ops) hop params rc absP (Suc idx) (pre @ m # suf) ?s' =
          Inr (?s'\<lparr>lexicalCursor := lx' @ [m], canonicalCursor := cn' @ m # suf\<rparr>)"
      using Cons.IH [of ?t ?t "Suc idx" ?s'] w pf Cons.prems dr by simp
    with step show ?thesis by simp
  qed
qed

lemma filter_nonempty_normal: "normalPath p \<Longrightarrow> filter (\<lambda>s. s \<noteq> []) p = p"
  by (induction p) auto

lemma existing_root_async:
  assumes "normalPath rootP" "lstat ops rootP = Inr st0" "realpath ops rootP = Inr rcRaw"
  shows "resolvePathViaExistingAncestor ops rootP = Inr (path_resolve rcRaw)"
proof -
  have e: "pathExists ops rootP = Inr True" using assms by (simp add: pathExists_def)
  have w: "walkUpAsync ops rootP [] = Inr (rootP, [])"
    using e by (subst walkUpAsync.simps) simp
  show ?thesis
    using assms e w by (simp add: resolvePathViaExistingAncestor_def path_resolve_id)
qed

lemma existing_root_sync:
  assumes "normalPath rootP" "stat ops rootP = Inr st1" "realpath ops rootP = Inr rcRaw"
  shows "resolvePathViaExistingAncestorSync ops rootP = path_resolve rcRaw"
proof -
  have e: "existsSync ops rootP" using assms by (simp add: existsSync_def)
  have w: "walkUpSync ops rootP [] = (rootP, [])"
    using e by (subst walkUpSync.simps) simp
  show ?thesis
    using assms e w by (simp add: resolvePathViaExistingAncestorSync_def path_resolve_id)
qed

lemma lexical_missing_async:
  assumes w: "canonicalOfExisting ops rc rootP rc pre = Some (lx', cn')"
    and ms: "lstat ops (lx' @ [m]) = Inl ENOENT"
    and ab: "stat ops (rootP @ pre @ m # suf) = Inl ENOENT"
    and n: "normalPath rc" "normalPath rootP" "normalPath pre" "normalPath (m # suf)"
  shows "resolveBoundaryPathLexicalAsync ops params (rootP @ pre @ m # suf) rootP rc =
           Inr (buildResolvedBoundaryPath (rootP @ pre @ m # suf) (cn' @ m # suf) rootP rc
                  \<lparr>pk_exists = False, pk_kind = Missing\<rparr>)"
proof -
  let ?absP = "rootP @ pre @ m # suf"
  let ?st = "createLexicalTraversalState params rootP rc ?absP"
  have seg: "segments ?st = pre @ m # suf"
    using n by (simp add: createLexicalTraversalState_def Let_def path_relative_append
          filter_nonempty_normal)
  have f: "lexicalCursor ?st = rootP" "canonicalCursor ?st = rc" "preserveFinalSymlink ?st = False"
    by (simp_all add: createLexicalTraversalState_def Let_def)
  have nn: "normalPath cn'" "prefix rc cn'"
    using canonicalOfExisting_normal [OF w] n by simp_all
  have t: "lexicalTraversal (lstat ops) (resolveSymlinkHopPath ops) params rc ?absP 0
             (pre @ m # suf) ?st =
           Inr (?st\<lparr>lexicalCursor := lx' @ [m], canonicalCursor := cn' @ m # suf\<rparr>)"
    using traversal_missing_suffix [of ops rc rootP rc pre lx' cn' m suf 0 ?st
        "resolveSymlinkHopPath ops" params ?absP] w ms n seg f
    by (simp add: resolveSymlinkHopPath_def)
  have k: "getPathKind ops ?absP False = Inr \<lparr>pk_exists = False, pk_kind = Missing\<rparr>"
    using ab by (simp add: getPathKind_def)
  show ?thesis
    using t k seg f nn n
    by (simp add: resolveBoundaryPathLexicalAsync_def Let_def finalizeLexicalResolution_def
          assertLexicalCursorInsideBoundary_def assertInsideBoundary_def isPathInside_normal)
qed

lemma lexical_missing_sync:
  assumes w: "canonicalOfExisting ops rc rootP rc pre = Some (lx', cn')"
    and ms: "lstat ops (lx' @ [m]) = Inl ENOENT"
    and ab: "stat ops (rootP @ pre @ m # suf) = Inl ENOENT"
    and n: "normalPath rc" "normalPath rootP" "normalPath pre" "normalPath (m # suf)"
  shows "resolveBoundaryPathLexicalSync ops params (rootP @ pre @ m # suf) rootP rc =
           Inr (buildResolvedBoundaryPath (rootP @ pre @ m # suf) (cn' @ m # suf) rootP rc
                  \<lparr>pk_exists = False, pk_kind = Missing\<rparr>)"
proof -
  let ?absP = "rootP @ pre @ m # suf"
  let ?st = "createLexicalTraversalState params rootP rc ?absP"
  have seg: "segments ?st = pre @ m # suf"
    using n by (simp add: createLexicalTraversalState_def Let_def path_relative_append
          filter_nonempty_normal)
  have f: "lexicalCursor ?st = rootP" "canonicalCursor ?st = rc" "preserveFinalSymlink ?st = False"
    by (simp_all add: createLexicalTraversalState_def Let_def)
  have nn: "normalPath cn'" "prefix rc cn'"
    using canonicalOfExisting_normal [OF w] n by simp_all
  have t: "lexicalTraversal (lstat ops) (resolveSymlinkHopPathSync ops) params rc ?absP 0
             (pre @ m # suf) ?st =
           Inr (?st\<lparr>lexicalCursor := lx' @ [m], canonicalCursor := cn' @ m # suf\<rparr>)"
    using traversal_missing_suffix [of ops rc rootP rc pre lx' cn' m suf 0 ?st
        "resolveSymlinkHopPathSync ops" params ?absP] w ms n seg f
    by (simp add: resolveSymlinkHopPathSync_def)
  have k: "getPathKindSync ops ?absP False = Inr \<lparr>pk_exists = False, pk_kind = Missing\<rparr>"
    using ab by (simp add: getPathKindSync_def)
  show ?thesis
    using t k seg f nn n
    by (simp add: resolveBoundaryPathLexicalSync_def Let_def finalizeLexicalResolution_def
          assertLexicalCursorInsideBoundary_def assertInsideBoundary_def isPathInside_normal)
qed

lemma allMissing_snoc:
  "allMissing ops anc (ys @ [y]) \<longleftrightarrow>
     allMissing ops anc ys \<and> lstat ops (anc @ ys @ [y]) = Inl ENOENT \<and>
     \<not> existsSync ops (anc @ ys @ [y])"
proof -
  have "tl (prefixes (ys @ [y])) = tl (prefixes ys) @ [ys @ [y]]"
    by (cases ys) simp_all
  then show ?thesis by (auto simp: allMissing_def)
qed

lemma walkUpAsync_missing:
  "allMissing ops anc xs \<Longrightarrow> walkUpAsync ops (anc @ xs) acc = walkUpAsync ops anc (xs @ acc)"
proof (induction xs arbitrary: acc rule: rev_induct)
  case Nil
  then show ?case by simp
next
  case (snoc y ys)
  from snoc.prems have m: "allMissing ops anc ys" and l: "lstat ops (anc @ ys @ [y]) = Inl ENOENT"
    by (simp_all add: allMissing_snoc)
  have "walkUpAsync ops (anc @ ys @ [y]) acc = walkUpAsync ops (anc @ ys) (y # acc)"
    using l
    by (subst walkUpAsync.simps)
       (simp add: isFilesystemRoot_def pathExists_def path_basename_def path_dirname_def
          butlast_append Let_def)
  with snoc.IH [OF m, of "y # acc"] show ?case by simp
qed

lemma walkUpSync_missing:
  "allMissing ops anc xs \<Longrightarrow> walkUpSync ops (anc @ xs) acc = walkUpSync ops anc (xs @ acc)"
proof (induction xs arbitrary: acc rule: rev_induct)
  case Nil
  then show ?case by simp
next
  case (snoc y ys)
  from snoc.prems have m: "allMissing ops anc ys" and l: "\<not> existsSync ops (anc @ ys @ [y])"
    by (simp_all add: allMissing_snoc)
  have "walkUpSync ops (anc @ ys @ [y]) acc = walkUpSync ops (anc @ ys) (y # acc)"
    using l
    by (subst walkUpSync.simps)
       (simp add: isFilesystemRoot_def path_basename_def path_dirname_def butlast_append Let_def)
  with snoc.IH [OF m, of "y # acc"] show ?case by simp
qed

lemma via_ancestor_async:
  assumes "allMissing ops anc (m # suf)" "normalPath anc" "normalPath (m # suf)"
    and "lstat ops anc = Inr st0" "realpath ops anc = Inr aRaw"
  shows "resolvePathViaExistingAncestor ops (anc @ m # suf) = Inr (path_resolve aRaw @ m # suf)"
proof -
  have e: "pathExists ops anc = Inr True" using assms by (simp add: pathExists_def)
  have "walkUpAsync ops anc (m # suf) = Inr (anc, m # suf)"
    using e by (subst walkUpAsync.simps) simp
  then have w: "walkUpAsync ops (anc @ m # suf) [] = Inr (anc, m # suf)"
    using walkUpAsync_missing [OF assms(1), of "[]"] by simp
  show ?thesis
    using assms e w
    by (simp add: resolvePathViaExistingAncestor_def path_resolve_id path_resolve_from_id)
qed

lemma via_ancestor_sync:
  assumes "allMissing ops anc (m # suf)" "normalPath anc" "normalPath (m # suf)"
    and "stat ops anc = Inr st1" "realpath ops anc = Inr aRaw"
  shows "resolvePathViaExistingAncestorSync ops (anc @ m # suf) = path_resolve aRaw @ m # suf"
proof -
  have e: "existsSync ops anc" using assms by (simp add: existsSync_def)
  have "walkUpSync ops anc (m # suf) = (anc, m # suf)"
    using e by (subst walkUpSync.simps) simp
  then have w: "walkUpSync ops (anc @ m # suf) [] = (anc, m # suf)"
    using walkUpSync_missing [OF assms(1), of "[]"] by simp
  show ?thesis
    using assms e w
    by (simp add: resolvePathViaExistingAncestorSync_def path_resolve_id path_resolve_from_id)
qed

lemma rootCanonical_async:
  assumes "rootCanonicalIs ops params rc"
  shows "(case p_rootCanonicalPath params of
            Some r \<Rightarrow> Inr (path_resolve r)
          | None \<Rightarrow> resolvePathViaExistingAncestor ops (path_resolve (p_rootPath params)))
         = Inr rc"
  using assms existing_root_async [of "path_resolve (p_rootPath params)" ops]
  by (auto simp: rootCanonicalIs_def split: option.splits sum.splits)

lemma rootCanonical_sync:
  assumes "rootCanonicalIs ops params rc"
  shows "(case p_rootCanonicalPath params of
            Some r \<Rightarrow> path_resolve r
          | None \<Rightarrow> resolvePathViaExistingAncestorSync ops (path_resolve (p_rootPath params)))
         = rc"
  using assms existing_root_sync [of "path_resolve (p_rootPath params)" ops]
  by (auto simp: rootCanonicalIs_def split: option.splits sum.splits)

lemma rootCanonical_normal: "rootCanonicalIs ops params rc \<Longrightarrow> normalPath rc"
  by (auto simp: rootCanonicalIs_def split: option.splits sum.splits)

lemma missing_inside_root:
  assumes rt: "rootCanonicalIs ops params rc"
    and ab: "path_resolve (p_absolutePath params) = path_resolve (p_rootPath params) @ pre @ m # suf"
    and w: "canonicalOfExisting ops rc (path_resolve (p_rootPath params)) rc pre = Some (lx', cn')"
    and ms: "lstat ops (lx' @ [m]) = Inl ENOENT"
    and st: "stat ops (path_resolve (p_absolutePath params)) = Inl ENOENT"
  shows "resolveBoundaryPath ops params =
           Inr (missingResult (path_resolve (p_absolutePath params)) (cn' @ m # suf)
                  (path_resolve (p_rootPath params)) rc) \<and>
         resolveBoundaryPathSync ops params =
           Inr (missingResult (path_resolve (p_absolutePath params)) (cn' @ m # suf)
                  (path_resolve (p_rootPath params)) rc)"
proof -
  let ?rootP = "path_resolve (p_rootPath params)"
  let ?absP = "?rootP @ pre @ m # suf"
  have na: "normalPath ?absP" using ab path_resolve_normal [of "p_absolutePath params"] by simp
  then have n: "normalPath ?rootP" "normalPath pre" "normalPath (m # suf)" by simp_all
  have nrc: "normalPath rc" using rt by (rule rootCanonical_normal)
  have ins: "isPathInside ?rootP ?absP"
    using na n by (simp add: isPathInside_normal)
  have ctx: "createBoundaryResolutionContext params ?rootP ?absP rc None =
       Inr \<lparr>c_rootPath = ?rootP, c_absolutePath = ?absP, c_rootCanonicalPath = rc,
            c_lexicalInside = True, c_canonicalOutsideLexicalPath = ?absP\<rparr>"
    using ins
    by (simp add: createBoundaryResolutionContext_def Let_def
          assertLexicalBoundaryOrCanonicalAlias_def resolveCanonicalOutsideLexicalPath_def)
  have st': "stat ops ?absP = Inl ENOENT" using st ab by simp
  have la: "resolveBoundaryPathLexicalAsync ops params ?absP ?rootP rc =
           Inr (missingResult ?absP (cn' @ m # suf) ?rootP rc)"
    using lexical_missing_async [of ops rc ?rootP pre lx' cn' m suf params] w ms st' n nrc
    by (simp add: missingResult_def buildResolvedBoundaryPath_def)
  have ls: "resolveBoundaryPathLexicalSync ops params ?absP ?rootP rc =
           Inr (missingResult ?absP (cn' @ m # suf) ?rootP rc)"
    using lexical_missing_sync [of ops rc ?rootP pre lx' cn' m suf params] w ms st' n nrc
    by (simp add: missingResult_def buildResolvedBoundaryPath_def)
  have a: "resolveBoundaryPath ops params = Inr (missingResult ?absP (cn' @ m # suf) ?rootP rc)"
    using ab ins ctx la rootCanonical_async [OF rt]
    by (simp add: resolveBoundaryPath_def Let_def
          resolveOutsideLexicalCanonicalPathAsync_def resolveOutsideBoundaryPathAsync_def)
  have s: "resolveBoundaryPathSync ops params = Inr (missingResult ?absP (cn' @ m # suf) ?rootP rc)"
    using ab ins ctx ls rootCanonical_sync [OF rt]
    by (simp add: resolveBoundaryPathSync_def Let_def
          resolveOutsideLexicalCanonicalPathSync_def resolveOutsideBoundaryPathSync_def)
  from a s ab show ?thesis by simp
qed

lemma missing_through_alias:
  assumes rt: "rootCanonicalIs ops params rc"
    and ab: "path_resolve (p_absolutePath params) = anc @ m # suf"
    and no: "\<not> prefix (path_resolve (p_rootPath params)) (anc @ m # suf)"
    and am: "allMissing ops anc (m # suf)"
    and ex: "lstat ops anc = Inr st0" "stat ops anc = Inr st1" "realpath ops anc = Inr aRaw"
    and pf: "prefix rc (path_resolve aRaw)"
    and st: "stat ops (path_resolve (p_absolutePath params)) = Inl ENOENT"
  shows "resolveBoundaryPath ops params =
           Inr (missingResult (path_resolve (p_absolutePath params)) (path_resolve aRaw @ m # suf)
                  (path_resolve (p_rootPath params)) rc) \<and>
         resolveBoundaryPathSync ops params =
           Inr (missingResult (path_resolve (p_absolutePath params)) (path_resolve aRaw @ m # suf)
                  (path_resolve (p_rootPath params)) rc)"
proof -
  let ?rootP = "path_resolve (p_rootPath params)"
  let ?absP = "anc @ m # suf"
  let ?can = "path_resolve aRaw @ m # suf"
  have na: "normalPath ?absP" using ab path_resolve_normal [of "p_absolutePath params"] by simp
  then have n: "normalPath anc" "normalPath (m # suf)" by simp_all
  have nrc: "normalPath rc" using rt by (rule rootCanonical_normal)
  have nr: "normalPath ?rootP" by simp
  have out: "\<not> isPathInside ?rootP ?absP"
    using no na nr by (simp add: isPathInside_normal)
  have nc: "normalPath ?can" using n by simp
  have ins: "isPathInside rc ?can"
    using pf nrc nc by (simp add: isPathInside_normal)
  have va: "resolvePathViaExistingAncestor ops ?absP = Inr ?can"
    using via_ancestor_async [OF am n ex(1) ex(3)] .
  have vs: "resolvePathViaExistingAncestorSync ops ?absP = ?can"
    using via_ancestor_sync [OF am n ex(2) ex(3)] .
  have ctx: "createBoundaryResolutionContext params ?rootP ?absP rc (Some ?can) =
       Inr \<lparr>c_rootPath = ?rootP, c_absolutePath = ?absP, c_rootCanonicalPath = rc,
            c_lexicalInside = False, c_canonicalOutsideLexicalPath = ?can\<rparr>"
    using out ins
    by (simp add: createBoundaryResolutionContext_def Let_def
          assertLexicalBoundaryOrCanonicalAlias_def resolveCanonicalOutsideLexicalPath_def)
  have st': "stat ops ?absP = Inl ENOENT" using st ab by simp
  have a: "resolveBoundaryPath ops params = Inr (missingResult ?absP ?can ?rootP rc)"
    using ab out ctx va st' ins rootCanonical_async [OF rt]
    by (simp add: resolveBoundaryPath_def Let_def
          resolveOutsideLexicalCanonicalPathAsync_def resolveOutsideBoundaryPathAsync_def
          getPathKind_def buildOutsideLexicalBoundaryPath_def assertInsideBoundary_def
          missingResult_def buildResolvedBoundaryPath_def)
  have s: "resolveBoundaryPathSync ops params = Inr (missingResult ?absP ?can ?rootP rc)"
    using ab out ctx vs st' ins rootCanonical_sync [OF rt]
    by (simp add: resolveBoundaryPathSync_def Let_def
          resolveOutsideLexicalCanonicalPathSync_def resolveOutsideBoundaryPathSync_def
          getPathKindSync_def buildOutsideLexicalBoundaryPath_def assertInsideBoundary_def
          missingResult_def buildResolvedBoundaryPath_def)
  from a s ab show ?thesis by simp
qed



section \<open>Calls and traces\<close>

lemmas io_defs = io_then_def io_catch_def io_finally_def io_return_def io_throw_def
  io_call_def io_call_unit_def io_emit_def

lemma mem_io_then:
  "ev \<in> set (snd (io_then m f)) \<longleftrightarrow>
     ev \<in> set (snd m) \<or> (\<exists>x. fst m = Inr x \<and> ev \<in> set (snd (f x)))"
  by (cases m; cases "fst m") (auto simp: io_then_def split: prod.splits)

lemma mem_io_catch:
  "ev \<in> set (snd (io_catch m f)) \<longleftrightarrow>
     ev \<in> set (snd m) \<or> (\<exists>e. fst m = Inl e \<and> ev \<in> set (snd (f e)))"
  by (cases m; cases "fst m") (auto simp: io_catch_def split: prod.splits)

lemma mem_io_finally:
  "ev \<in> set (snd (io_finally m c)) \<longleftrightarrow> ev \<in> set (snd m) \<or> ev \<in> set c"
  by (cases m) (auto simp: io_finally_def)

lemma mem_io_basic:
  "ev \<in> set (snd (io_call e a)) \<longleftrightarrow> ev = e"
  "ev \<in> set (snd (io_call_unit e b)) \<longleftrightarrow> ev = e"
  "ev \<in> set (snd (io_emit e)) \<longleftrightarrow> ev = e"
  "ev \<notin> set (snd (io_return x))"
  "ev \<notin> set (snd (io_throw err))"
  by (auto simp: io_call_def io_call_unit_def io_emit_def io_return_def io_throw_def
        split: sum.splits option.splits)

lemmas mem_io = mem_io_then mem_io_catch mem_io_finally mem_io_basic

lemma snd_io_then_Inr: "fst m = Inr x \<Longrightarrow> snd (io_then m f) = snd m @ snd (f x)"
  by (cases m) (auto simp: io_then_def split: prod.splits)

lemma fst_io_then_Inr: "fst m = Inr x \<Longrightarrow> fst (io_then m f) = fst (f x)"
  by (cases m) (auto simp: io_then_def split: prod.splits)

lemma verifyOpened_events:
  "ev \<in> set (snd (verifyOpenedLocalFile w p rh h)) \<Longrightarrow>
     ev = EvFstat h \<or> ev = EvLstat p \<or> ev = EvRealpath p \<or> (\<exists>q. ev = EvStat q)"
  by (auto simp: verifyOpenedLocalFile_def mem_io split: sum.splits if_splits)

lemma openVerified_events:
  "ev \<in> set (snd (openVerifiedLocalFile w p rh)) \<Longrightarrow>
     ev = EvLstat p \<or> ev = EvOpen p OPEN_READ_FLAGS \<or> ev = EvRealpath p \<or>
     (\<exists>q. ev = EvStat q) \<or> (\<exists>h. ev = EvFstat h \<or> ev = EvClose h)"
  by (auto simp: openVerifiedLocalFile_def mem_io split: if_splits dest!: verifyOpened_events)

lemma resolvePathWithinRoot_events:
  "ev \<in> set (snd (resolvePathWithinRoot w root rel)) \<Longrightarrow>
     ev = EvRealpath root \<or> ev = EvRealpath (w_home w)"
  by (auto simp: resolvePathWithinRoot_def expandRelativePathWithHome_def mem_io Let_def
        split: if_splits)

lemma openFileWithinRoot_no_read:
  "EvReadFile h \<notin> set (snd (openFileWithinRoot w params))"
  by (auto simp: openFileWithinRoot_def mem_io split: if_splits prod.splits
        dest!: openVerified_events resolvePathWithinRoot_events)

lemma safeOpenErrorCode_cases:
  "isSafeOpenError e \<Longrightarrow> \<exists>c m cause. e = SafeOpenError c m cause"
  by (cases e) auto

lemma not_safe_code: "\<not> isSafeOpenError e \<Longrightarrow> safeOpenErrorCode e = None"
  by (cases e) auto

section \<open>Race detection at open time\<close>

text \<open>
  Claim C4 (race detection at open time), as the code has it. After a successful open, with
  the handle's \<open>stat\<close> and the path's \<open>lstat\<close> both observed: when \<open>lstat\<close> shows a
  symbolic link the call fails with \<open>symlink\<close>; when it shows none and the two identities
  differ the call fails too, with \<open>not-file\<close> when the handle is not a regular file, with
  \<open>invalid-path\<close> when hard links are rejected and the link count exceeds one, and with
  \<open>path-mismatch\<close> otherwise; in each of these cases the handle is closed. A returned
  result means that \<open>lstat\<close> showed no link and that the path and the real path both have
  the identity of the handle. So a file replaced by a link between resolution and open
  never gives a result.
\<close>

theorem open_race_detection:
  "(case w_preLstat w p of Inr pre \<Rightarrow> \<not> isDirectory pre | Inl e \<Rightarrow> True) \<and>
   w_open w p OPEN_READ_FLAGS = Inr h \<and> w_fstat w h = Inr st \<and> w_lstat w p = Inr lst \<longrightarrow>
     (isSymbolicLink lst \<longrightarrow>
        fst (openVerifiedLocalFile w p rh) = Inl (SafeOpenError Symlink ''symlink not allowed'' None)) \<and>
     (\<not> isSymbolicLink lst \<and> \<not> sameFileIdentity st lst \<longrightarrow>
        failureCode (openVerifiedLocalFile w p rh) =
          Some (if \<not> isFile st then NotFile
                else if rh = Some True \<and> st_nlink st > 1 then InvalidPath
                else PathMismatch)) \<and>
     (isSymbolicLink lst \<or> \<not> sameFileIdentity st lst \<longrightarrow>
        EvClose h \<in> set (snd (openVerifiedLocalFile w p rh))) \<and>
     (\<forall>r. fst (openVerifiedLocalFile w p rh) = Inr r \<longrightarrow>
        \<not> isSymbolicLink lst \<and> sameFileIdentity st lst \<and> handle r = h \<and> stat_of r = st \<and>
        (\<exists>realStat. w_stat w (realPath r) = Inr realStat \<and> sameFileIdentity st realStat))"
  by (auto simp: openVerifiedLocalFile_def verifyOpenedLocalFile_def io_defs failureCode_def
        isNotFoundPathError_def isSymlinkOpenError_def split: sum.splits if_splits)

theorem open_race_detection_witness:
  "fst (openVerifiedLocalFile ((quiet_world a_txt_stat)\<lparr>w_lstat := (\<lambda>p. Inr link_stat)\<rparr>)
          [''work'', ''a.txt''] None)
     = Inl (SafeOpenError Symlink ''symlink not allowed'' None) \<and>
   EvClose 3 \<in> set (snd (openVerifiedLocalFile
          ((quiet_world a_txt_stat)\<lparr>w_lstat := (\<lambda>p. Inr link_stat)\<rparr>) [''work'', ''a.txt''] None)) \<and>
   \<not> sameFileIdentity a_txt_stat replaced_stat \<and>
   failureCode (openVerifiedLocalFile
          ((quiet_world a_txt_stat)\<lparr>w_lstat := (\<lambda>p. Inr replaced_stat)\<rparr>) [''work'', ''a.txt''] None)
     = Some PathMismatch"
  using open_race_detection [of "(quiet_world a_txt_stat)\<lparr>w_lstat := (\<lambda>p. Inr link_stat)\<rparr>"
      "[''work'', ''a.txt'']" 3 a_txt_stat link_stat None]
    open_race_detection [of "(quiet_world a_txt_stat)\<lparr>w_lstat := (\<lambda>p. Inr replaced_stat)\<rparr>"
      "[''work'', ''a.txt'']" 3 a_txt_stat replaced_stat None]
  by (simp add: quiet_world_def a_txt_stat_def link_stat_def replaced_stat_def isDirectory_def
        isSymbolicLink_def isFile_def sameFileIdentity_def)

text \<open>
  Claim C4 as stated says that differing identities end in \<open>path-mismatch\<close>. Here the
  path lost its file to a directory while it was opened and has the file back afterwards:
  the handle shows the directory, \<open>lstat\<close> shows the file, the identities differ, and the
  call fails with \<open>not-file\<close>. When the handle shows a file with two names instead and
  hard links are rejected, the call fails with \<open>invalid-path\<close>.
\<close>

theorem identity_mismatch_counterexample:
  "w_open ((quiet_world a_txt_stat)\<lparr>w_fstat := (\<lambda>h. Inr dir_stat)\<rparr>) [''work'', ''a.txt'']
       OPEN_READ_FLAGS = Inr 3 \<and>
   w_fstat ((quiet_world a_txt_stat)\<lparr>w_fstat := (\<lambda>h. Inr dir_stat)\<rparr>) 3 = Inr dir_stat \<and>
   w_lstat ((quiet_world a_txt_stat)\<lparr>w_fstat := (\<lambda>h. Inr dir_stat)\<rparr>) [''work'', ''a.txt'']
     = Inr a_txt_stat \<and>
   \<not> isSymbolicLink a_txt_stat \<and> \<not> sameFileIdentity dir_stat a_txt_stat \<and>
   fst (openVerifiedLocalFile ((quiet_world a_txt_stat)\<lparr>w_fstat := (\<lambda>h. Inr dir_stat)\<rparr>)
          [''work'', ''a.txt''] None)
     = Inl (SafeOpenError NotFile ''not a file'' None) \<and>
   \<not> sameFileIdentity hard_stat a_txt_stat \<and>
   fst (openVerifiedLocalFile ((quiet_world a_txt_stat)\<lparr>w_fstat := (\<lambda>h. Inr hard_stat)\<rparr>)
          [''work'', ''a.txt''] (Some True))
     = Inl (SafeOpenError InvalidPath ''hardlinked path not allowed'' None)"
  by (simp add: openVerifiedLocalFile_def verifyOpenedLocalFile_def io_defs quiet_world_def
        a_txt_stat_def dir_stat_def hard_stat_def isDirectory_def isSymbolicLink_def isFile_def
        sameFileIdentity_def)

section \<open>Directories\<close>

lemma opener_directory_cases:
  "(w_preLstat w filePath = Inr pre \<and> isDirectory pre \<longrightarrow>
      openVerifiedLocalFile w filePath rejectHardlinks =
        (Inl (SafeOpenError NotFile ''not a file'' None), [EvLstat filePath])) \<and>
   ((case w_preLstat w filePath of Inr st \<Rightarrow> \<not> isDirectory st | Inl e \<Rightarrow> True) \<and>
    w_open w filePath OPEN_READ_FLAGS = Inl EISDIR \<longrightarrow>
      fst (openVerifiedLocalFile w filePath rejectHardlinks) =
        Inl (SafeOpenError NotFile ''not a file'' None)) \<and>
   ((case w_preLstat w filePath of Inr st \<Rightarrow> \<not> isDirectory st | Inl e \<Rightarrow> True) \<and>
    w_open w filePath OPEN_READ_FLAGS = Inr h \<and>
    w_fstat w h = Inr st \<and> isDirectory st \<and>
    w_lstat w filePath = Inr lst \<and> \<not> isSymbolicLink lst \<longrightarrow>
      fst (openVerifiedLocalFile w filePath rejectHardlinks) =
        Inl (SafeOpenError NotFile ''not a file'' None))"
  apply (intro conjI impI)
    apply (simp add: openVerifiedLocalFile_def io_defs)
   apply (auto simp: openVerifiedLocalFile_def io_defs isNotFoundPathError_def
            isSymlinkOpenError_def split: sum.splits)[1]
  apply (auto simp: openVerifiedLocalFile_def verifyOpenedLocalFile_def io_defs
           isNotFoundPathError_def isSymlinkOpenError_def isDirectory_def isFile_def
           split: sum.splits)[1]
  done

lemma open_never_leaks_eisdir:
  "(\<forall>h. w_fstat w h \<noteq> Inl EISDIR) \<and> w_lstat w filePath \<noteq> Inl EISDIR \<and>
    w_realpath w filePath \<noteq> Inl EISDIR \<and> (\<forall>q. w_stat w q \<noteq> Inl EISDIR) \<longrightarrow>
      fst (openVerifiedLocalFile w filePath rejectHardlinks) \<noteq> Inl (NodeError EISDIR)"
  by (auto simp: openVerifiedLocalFile_def verifyOpenedLocalFile_def io_defs
        isNotFoundPathError_def isSymlinkOpenError_def split: sum.splits if_splits)

text \<open>
  Claim C5 (directory rejection). A path that refers to a directory is refused with
  \<open>not-file\<close>: when the \<open>lstat\<close> before the open shows a directory, the call fails at
  once and the only call made is that \<open>lstat\<close>, so the open is never attempted; when the
  pre-check saw no directory and the open reports \<^verbatim>\<open>EISDIR\<close>, and when the open succeeds
  and the handle shows a directory, the call fails with \<open>not-file\<close> as well. In all three
  cases the error is the \<open>SafeOpenError\<close> with the message ``not a file'' and no cause, so
  no text of the operating system reaches the caller. And whatever the pre-check saw, the
  \<^verbatim>\<open>EISDIR\<close> of an open never reaches the caller: unless one of the later \<open>stat\<close> and
  \<open>realpath\<close> calls itself reports \<^verbatim>\<open>EISDIR\<close>, the opener does not fail with that error.
\<close>

theorem directory_rejected:
  "(w_preLstat w filePath = Inr pre \<and> isDirectory pre \<longrightarrow>
      openVerifiedLocalFile w filePath rejectHardlinks =
        (Inl (SafeOpenError NotFile ''not a file'' None), [EvLstat filePath])) \<and>
   ((case w_preLstat w filePath of Inr st \<Rightarrow> \<not> isDirectory st | Inl e \<Rightarrow> True) \<and>
    w_open w filePath OPEN_READ_FLAGS = Inl EISDIR \<longrightarrow>
      fst (openVerifiedLocalFile w filePath rejectHardlinks) =
        Inl (SafeOpenError NotFile ''not a file'' None)) \<and>
   ((case w_preLstat w filePath of Inr st \<Rightarrow> \<not> isDirectory st | Inl e \<Rightarrow> True) \<and>
    w_open w filePath OPEN_READ_FLAGS = Inr h \<and>
    w_fstat w h = Inr st \<and> isDirectory st \<and>
    w_lstat w filePath = Inr lst \<and> \<not> isSymbolicLink lst \<longrightarrow>
      fst (openVerifiedLocalFile w filePath rejectHardlinks) =
        Inl (SafeOpenError NotFile ''not a file'' None)) \<and>
   ((\<forall>h. w_fstat w h \<noteq> Inl EISDIR) \<and> w_lstat w filePath \<noteq> Inl EISDIR \<and>
    w_realpath w filePath \<noteq> Inl EISDIR \<and> (\<forall>q. w_stat w q \<noteq> Inl EISDIR) \<longrightarrow>
      fst (openVerifiedLocalFile w filePath rejectHardlinks) \<noteq> Inl (NodeError EISDIR))"
proof -
  note cases = opener_directory_cases [of w filePath pre rejectHardlinks h st lst]
  note leak = open_never_leaks_eisdir [of w filePath rejectHardlinks]
  from cases leak show ?thesis by (intro conjI) (elim conjE, assumption)+
qed

theorem directory_rejected_witness:
  "openVerifiedLocalFile (quiet_world dir_stat) [''work'', ''dir''] None =
     (Inl (SafeOpenError NotFile ''not a file'' None), [EvLstat [''work'', ''dir'']]) \<and>
   fst (openVerifiedLocalFile
          ((quiet_world dir_stat)\<lparr>w_preLstat := (\<lambda>p. Inl EACCES), w_open := (\<lambda>p fl. Inl EISDIR)\<rparr>)
          [''work'', ''dir''] None) =
     Inl (SafeOpenError NotFile ''not a file'' None) \<and>
   fst (openVerifiedLocalFile ((quiet_world dir_stat)\<lparr>w_preLstat := (\<lambda>p. Inr a_txt_stat)\<rparr>)
          [''work'', ''dir''] None) =
     Inl (SafeOpenError NotFile ''not a file'' None) \<and>
   fst (openVerifiedLocalFile
          ((quiet_world dir_stat)\<lparr>w_preLstat := (\<lambda>p. Inl EACCES), w_open := (\<lambda>p fl. Inl EISDIR)\<rparr>)
          [''work'', ''dir''] (Some True)) \<noteq> Inl (NodeError EISDIR)"
  using directory_rejected [of "quiet_world dir_stat" "[''work'', ''dir'']" dir_stat None 3
      dir_stat dir_stat]
    directory_rejected [of
      "(quiet_world dir_stat)\<lparr>w_preLstat := (\<lambda>p. Inl EACCES), w_open := (\<lambda>p fl. Inl EISDIR)\<rparr>"
      "[''work'', ''dir'']" dir_stat None 3 dir_stat dir_stat]
    directory_rejected [of "(quiet_world dir_stat)\<lparr>w_preLstat := (\<lambda>p. Inr a_txt_stat)\<rparr>"
      "[''work'', ''dir'']" dir_stat None 3 dir_stat dir_stat]
    directory_rejected [of
      "(quiet_world dir_stat)\<lparr>w_preLstat := (\<lambda>p. Inl EACCES), w_open := (\<lambda>p fl. Inl EISDIR)\<rparr>"
      "[''work'', ''dir'']" dir_stat "Some True" 3 dir_stat dir_stat]
  by (simp add: quiet_world_def dir_stat_def a_txt_stat_def isDirectory_def isSymbolicLink_def)

section \<open>Hard links\<close>

text \<open>
  Claim C6 (hard link rejection), as the code has it. Opening a regular file whose link
  count exceeds one fails with \<open>invalid-path\<close> when hard links are rejected: in
  \<^verbatim>\<open>openVerifiedLocalFile\<close> with \<open>rejectHardlinks\<close> set, and in \<^verbatim>\<open>openFileWithinRoot\<close>
  unless \<open>rejectHardlinks\<close> is \<open>false\<close>. The same file is opened when the caller does not
  ask for the rejection (\<open>rejectHardlinks\<close> not set to true for the opener, \<open>false\<close> for
  the root-scoped helper) and the other checks pass. No alias policy takes part: the
  open operations have no such parameter.
\<close>

theorem hardlink_rejection:
  "((case w_preLstat w p of Inr pre \<Rightarrow> \<not> isDirectory pre | Inl e \<Rightarrow> True) \<and>
    w_open w p OPEN_READ_FLAGS = Inr h \<and> w_fstat w h = Inr st \<and> w_lstat w p = Inr lst \<and>
    \<not> isSymbolicLink lst \<and> isFile st \<and> st_nlink st > 1 \<longrightarrow>
      fst (openVerifiedLocalFile w p (Some True)) =
        Inl (SafeOpenError InvalidPath ''hardlinked path not allowed'' None) \<and>
      (sameFileIdentity st lst \<and> w_realpath w p = Inr real \<and> w_stat w real = Inr realStat \<and>
       sameFileIdentity st realStat \<and> rh \<noteq> Some True \<longrightarrow>
         fst (openVerifiedLocalFile w p rh) = Inr \<lparr>handle = h, realPath = real, stat_of = st\<rparr>)) \<and>
   (fst (resolvePathWithinRoot w (o_rootDir params) (o_relativePath params))
       = Inr (rootReal, rootWithSep, resolved) \<and>
    fst (openVerifiedLocalFile w resolved None) = Inr opened \<and> st_nlink (stat_of opened) > 1 \<longrightarrow>
      (o_rejectHardlinks params \<noteq> Some False \<longrightarrow>
         fst (openFileWithinRoot w params) =
           Inl (SafeOpenError InvalidPath ''hardlinked path not allowed'' None)) \<and>
      (o_rejectHardlinks params = Some False \<and> isPathInside rootWithSep (realPath opened) \<longrightarrow>
         fst (openFileWithinRoot w params) = Inr opened))"
proof (intro conjI impI; (elim conjE)?)
  assume "case w_preLstat w p of Inl e \<Rightarrow> True | Inr pre \<Rightarrow> \<not> isDirectory pre"
    "w_open w p OPEN_READ_FLAGS = Inr h" "w_fstat w h = Inr st" "w_lstat w p = Inr lst"
    "\<not> isSymbolicLink lst" "isFile st" "1 < st_nlink st"
  then show "fst (openVerifiedLocalFile w p (Some True)) =
        Inl (SafeOpenError InvalidPath ''hardlinked path not allowed'' None)"
    by (auto simp: openVerifiedLocalFile_def verifyOpenedLocalFile_def io_defs split: sum.splits)
next
  assume "case w_preLstat w p of Inl e \<Rightarrow> True | Inr pre \<Rightarrow> \<not> isDirectory pre"
    "w_open w p OPEN_READ_FLAGS = Inr h" "w_fstat w h = Inr st" "w_lstat w p = Inr lst"
    "\<not> isSymbolicLink lst" "isFile st" "1 < st_nlink st"
    "sameFileIdentity st lst" "w_realpath w p = Inr real" "w_stat w real = Inr realStat"
    "sameFileIdentity st realStat" "rh \<noteq> Some True"
  then show "fst (openVerifiedLocalFile w p rh) = Inr \<lparr>handle = h, realPath = real, stat_of = st\<rparr>"
    by (auto simp: openVerifiedLocalFile_def verifyOpenedLocalFile_def io_defs split: sum.splits)
next
  assume r: "fst (resolvePathWithinRoot w (o_rootDir params) (o_relativePath params))
       = Inr (rootReal, rootWithSep, resolved)"
    and o: "fst (openVerifiedLocalFile w resolved None) = Inr opened"
    and n: "1 < st_nlink (stat_of opened)" and rj: "o_rejectHardlinks params \<noteq> Some False"
  obtain t where r': "resolvePathWithinRoot w (o_rootDir params) (o_relativePath params)
       = (Inr (rootReal, rootWithSep, resolved), t)"
    using r by (cases "resolvePathWithinRoot w (o_rootDir params) (o_relativePath params)") auto
  obtain t2 where o': "openVerifiedLocalFile w resolved None = (Inr opened, t2)"
    using o by (cases "openVerifiedLocalFile w resolved None") auto
  show "fst (openFileWithinRoot w params) =
           Inl (SafeOpenError InvalidPath ''hardlinked path not allowed'' None)"
    using r' o' n rj by (simp add: openFileWithinRoot_def io_defs)
next
  assume r: "fst (resolvePathWithinRoot w (o_rootDir params) (o_relativePath params))
       = Inr (rootReal, rootWithSep, resolved)"
    and o: "fst (openVerifiedLocalFile w resolved None) = Inr opened"
    and rj: "o_rejectHardlinks params = Some False"
    and ins: "isPathInside rootWithSep (realPath opened)"
  obtain t where r': "resolvePathWithinRoot w (o_rootDir params) (o_relativePath params)
       = (Inr (rootReal, rootWithSep, resolved), t)"
    using r by (cases "resolvePathWithinRoot w (o_rootDir params) (o_relativePath params)") auto
  obtain t2 where o': "openVerifiedLocalFile w resolved None = (Inr opened, t2)"
    using o by (cases "openVerifiedLocalFile w resolved None") auto
  show "fst (openFileWithinRoot w params) = Inr opened"
    using r' o' rj ins by (simp add: openFileWithinRoot_def io_defs)
qed

theorem hardlink_rejection_witness:
  "fst (openVerifiedLocalFile (quiet_world hard_stat) [''work'', ''hard.txt''] (Some True)) =
     Inl (SafeOpenError InvalidPath ''hardlinked path not allowed'' None) \<and>
   fst (openVerifiedLocalFile (quiet_world hard_stat) [''work'', ''hard.txt''] (Some False)) =
     Inr hard_opened \<and>
   fst (openFileWithinRoot (quiet_world hard_stat) (openParams [''work''] [''hard.txt''] (Some True))) =
     Inl (SafeOpenError InvalidPath ''hardlinked path not allowed'' None) \<and>
   fst (openFileWithinRoot (quiet_world hard_stat) (openParams [''work''] [''hard.txt''] (Some False))) =
     Inr hard_opened"
proof -
  have r: "fst (resolvePathWithinRoot (quiet_world hard_stat) [''work''] (RelativeTarget [''hard.txt'']))
             = Inr ([''work''], [''work''], [''work'', ''hard.txt''])"
    by code_simp
  have o: "fst (openVerifiedLocalFile (quiet_world hard_stat) [''work'', ''hard.txt''] None)
             = Inr hard_opened"
    by code_simp
  have i: "isPathInside [''work''] (realPath hard_opened)" by code_simp
  have n: "st_nlink (stat_of hard_opened) > 1" by code_simp
  have q: "w_preLstat (quiet_world hard_stat) [''work'', ''hard.txt''] = Inr hard_stat"
    "w_open (quiet_world hard_stat) [''work'', ''hard.txt''] OPEN_READ_FLAGS = Inr 3"
    "w_fstat (quiet_world hard_stat) 3 = Inr hard_stat"
    "w_lstat (quiet_world hard_stat) [''work'', ''hard.txt''] = Inr hard_stat"
    "w_realpath (quiet_world hard_stat) [''work'', ''hard.txt''] = Inr [''work'', ''hard.txt'']"
    "w_stat (quiet_world hard_stat) [''work'', ''hard.txt''] = Inr hard_stat"
    by (simp_all add: quiet_world_def)
  have s: "\<not> isDirectory hard_stat" "\<not> isSymbolicLink hard_stat" "isFile hard_stat"
    "st_nlink hard_stat > 1" "sameFileIdentity hard_stat hard_stat"
    by (simp_all add: hard_stat_def isDirectory_def isSymbolicLink_def isFile_def
          sameFileIdentity_def)
  from hardlink_rejection [of "quiet_world hard_stat" "[''work'', ''hard.txt'']" 3 hard_stat
      hard_stat "[''work'', ''hard.txt'']" hard_stat "Some False"
      "openParams [''work''] [''hard.txt''] (Some True)" "[''work'']" "[''work'']"
      "[''work'', ''hard.txt'']" hard_opened]
    hardlink_rejection [of "quiet_world hard_stat" "[''work'', ''hard.txt'']" 3 hard_stat
      hard_stat "[''work'', ''hard.txt'']" hard_stat "Some False"
      "openParams [''work''] [''hard.txt''] (Some False)" "[''work'']" "[''work'']"
      "[''work'', ''hard.txt'']" hard_opened]
    r o i n q s
  show ?thesis by (simp add: openParams_def hard_opened_def)
qed

text \<open>
  Claim C6 as stated says that the file with two names is opened once the alias policy
  permits hard links. The facade is the one open operation that takes an alias policy; it
  hands the policy to the resolver only, where \<open>allowFinalHardlinkForUnlink\<close> is never
  read, and passes \<open>rejectHardlinks\<close> (true when absent) to the opener. With the
  \<open>unlinkTarget\<close> preset the file is still refused.
\<close>

theorem alias_policy_hardlink_counterexample:
  "table_stat fs_hard [''work'', ''hard.txt''] = Inr hard_stat \<and>
   allowFinalHardlinkForUnlink policy_unlinkTarget = Some True \<and>
   openBoundaryFile (ops_of_table fs_hard) (openVerifiedFileSync (quiet_world hard_stat))
     (boundaryParams [''work'', ''hard.txt''] [''work''] (Some True) (Some policy_unlinkTarget))
     = Inr (BoundaryFailed ''invalid-path'' None) \<and>
   openBoundaryFile (ops_of_table fs_hard) (openVerifiedFileSync (quiet_world hard_stat))
     (boundaryParams [''work'', ''hard.txt''] [''work''] None (Some policy_unlinkTarget))
     = Inr (BoundaryFailed ''invalid-path'' None)"
  by code_simp

section \<open>The size limit\<close>

lemma readOpened_too_large:
  "st_size (stat_of opened) > m \<Longrightarrow>
   readOpenedFileSafely w opened (Some m) = (Inl (SafeOpenError TooLarge ''file exceeds limit'' None), [])"
  by (simp add: readOpenedFileSafely_def io_defs)

text \<open>
  Claim C7 (size-limit enforcement). In a root-scoped read with \<open>maxBytes\<close> set, when the
  file has been opened and verified and the size observed then exceeds \<open>maxBytes\<close>, the
  read fails with \<open>too-large\<close>; the calls made are those of the open followed by the close
  of the handle, and no read of the content is among them.
\<close>

theorem size_limit_enforced:
  "fst (openFileWithinRoot w (openParamsOf params)) = Inr opened \<and>
   rd_maxBytes params = Some m \<and> st_size (stat_of opened) > m \<longrightarrow>
     fst (readFileWithinRoot w params) = Inl (SafeOpenError TooLarge ''file exceeds limit'' None) \<and>
     snd (readFileWithinRoot w params) =
       snd (openFileWithinRoot w (openParamsOf params)) @ [EvClose (handle opened)] \<and>
     (\<forall>h. EvReadFile h \<notin> set (snd (readFileWithinRoot w params)))"
proof (intro impI, elim conjE)
  assume o: "fst (openFileWithinRoot w (openParamsOf params)) = Inr opened"
    and m: "rd_maxBytes params = Some m" and big: "st_size (stat_of opened) > m"
  obtain t where ot: "openFileWithinRoot w (openParamsOf params) = (Inr opened, t)"
    using o by (cases "openFileWithinRoot w (openParamsOf params)") auto
  have noread: "\<forall>h. EvReadFile h \<notin> set t"
    using openFileWithinRoot_no_read [of _ w "openParamsOf params"] ot by simp
  have r: "readFileWithinRoot w params =
      (Inl (SafeOpenError TooLarge ''file exceeds limit'' None), t @ [EvClose (handle opened)])"
    using ot m big
    by (simp add: readFileWithinRoot_def openParamsOf_def[symmetric] readOpened_too_large io_then_def io_finally_def)
  show "fst (readFileWithinRoot w params) = Inl (SafeOpenError TooLarge ''file exceeds limit'' None) \<and>
     snd (readFileWithinRoot w params) =
       snd (openFileWithinRoot w (openParamsOf params)) @ [EvClose (handle opened)] \<and>
     (\<forall>h. EvReadFile h \<notin> set (snd (readFileWithinRoot w params)))"
    using r ot noread by simp
qed

theorem size_limit_enforced_witness:
  "fst (openFileWithinRoot (quiet_world a_txt_stat)
          (openParamsOf (readParams [''work''] [''a.txt''] None (Some 10))))
     = Inr \<lparr>handle = 3, realPath = [''work'', ''a.txt''], stat_of = a_txt_stat\<rparr> \<and>
   st_size a_txt_stat = 20 \<and>
   readFileWithinRoot (quiet_world a_txt_stat) (readParams [''work''] [''a.txt''] None (Some 10))
     = (Inl (SafeOpenError TooLarge ''file exceeds limit'' None),
        [EvRealpath [''work''], EvRealpath [''home'', ''user''], EvLstat [''work'', ''a.txt''],
         EvOpen [''work'', ''a.txt''] OPEN_READ_FLAGS, EvFstat 3, EvLstat [''work'', ''a.txt''],
         EvRealpath [''work'', ''a.txt''], EvStat [''work'', ''a.txt''], EvClose 3])"
proof -
  have o: "fst (openFileWithinRoot (quiet_world a_txt_stat)
          (openParamsOf (readParams [''work''] [''a.txt''] None (Some 10))))
     = Inr \<lparr>handle = 3, realPath = [''work'', ''a.txt''], stat_of = a_txt_stat\<rparr>"
    by code_simp
  have t: "snd (openFileWithinRoot (quiet_world a_txt_stat)
          (openParamsOf (readParams [''work''] [''a.txt''] None (Some 10))))
     = [EvRealpath [''work''], EvRealpath [''home'', ''user''], EvLstat [''work'', ''a.txt''],
         EvOpen [''work'', ''a.txt''] OPEN_READ_FLAGS, EvFstat 3, EvLstat [''work'', ''a.txt''],
         EvRealpath [''work'', ''a.txt''], EvStat [''work'', ''a.txt'']]"
    by code_simp
  have m: "rd_maxBytes (readParams [''work''] [''a.txt''] None (Some 10)) = Some 10"
    by (simp add: readParams_def)
  have sz: "st_size a_txt_stat = 20" by (simp add: a_txt_stat_def)
  from o t m sz size_limit_enforced [of "quiet_world a_txt_stat"
      "readParams [''work''] [''a.txt''] None (Some 10)"
      "\<lparr>handle = 3, realPath = [''work'', ''a.txt''], stat_of = a_txt_stat\<rparr>" 10]
  show ?thesis by (simp add: prod_eq_iff)
qed

section \<open>Writing within the root\<close>

lemma verifyAndWrite_truncate:
  assumes "EvTruncate h' \<in> set (snd (verifyAndWrite w rws ioPath h created dat))"
  shows "h' = h \<and> \<not> created \<and> firstWriteChecksPass w ioPath h \<and>
         (\<exists>real rest. w_realpath w ioPath = Inr real \<and> laterWriteChecksPass w rws h real \<and>
            snd (verifyAndWrite w rws ioPath h created dat) =
              [EvFstat h, EvLstat ioPath, EvRealpath ioPath, EvStat real, EvTruncate h] @ rest)"
  using assms
  by (auto simp: verifyAndWrite_def io_defs firstWriteChecksPass_def laterWriteChecksPass_def
        split: sum.splits if_splits option.splits)

lemma verifyAndWrite_rm:
  assumes "EvRm q \<in> set (snd (verifyAndWrite w rws ioPath h created dat))"
  shows "created \<and> firstWriteChecksPass w ioPath h \<and> w_realpath w ioPath = Inr q \<and>
         \<not> laterWriteChecksPass w rws h q \<and>
         (\<exists>c m. fst (verifyAndWrite w rws ioPath h created dat) = Inl (SafeOpenError c m None) \<and>
            c \<in> {PathMismatch, InvalidPath, OutsideWorkspace}) \<and>
         snd (verifyAndWrite w rws ioPath h created dat) =
           [EvFstat h, EvLstat ioPath, EvRealpath ioPath, EvStat q, EvRm q]"
  using assms
  by (auto simp: verifyAndWrite_def io_defs firstWriteChecksPass_def laterWriteChecksPass_def
        split: sum.splits if_splits option.splits)

lemma resolvePathWithinRoot_ok:
  "fst (resolvePathWithinRoot w root rel) = Inr (rootReal, rws, resolved) \<Longrightarrow>
     w_rootRealpath w root = Inr rootReal \<and> rws = ensureTrailingSep rootReal \<and>
     isPathInside rws resolved"
  by (auto simp: resolvePathWithinRoot_def expandRelativePathWithHome_def io_defs Let_def
        split: sum.splits if_splits)

lemma openForWrite_ok:
  "fst (openForWrite w ioPath) = Inr (h, created) \<Longrightarrow>
     (if created
      then w_open w ioPath OPEN_WRITE_EXISTING_FLAGS = Inl ENOENT \<and>
           w_open w ioPath OPEN_WRITE_CREATE_FLAGS = Inr h
      else w_open w ioPath OPEN_WRITE_EXISTING_FLAGS = Inr h)"
  by (auto simp: openForWrite_def io_defs isNotFoundPathError_def isSymlinkOpenError_def
        split: sum.splits if_splits elim!: hasNodeErrorCode.elims)

lemma resolveWriteIoPath_events:
  "ev \<in> set (snd (resolveWriteIoPath w rws resolved)) \<Longrightarrow> \<not> destructive ev"
  by (auto simp: resolveWriteIoPath_def mem_io split: if_splits)

lemma openForWrite_events:
  "ev \<in> set (snd (openForWrite w ioPath)) \<Longrightarrow> \<not> destructive ev"
  by (auto simp: openForWrite_def mem_io split: if_splits)

lemma resolvePathWithinRoot_nondestructive:
  "ev \<in> set (snd (resolvePathWithinRoot w root rel)) \<Longrightarrow> \<not> destructive ev"
  by (auto dest: resolvePathWithinRoot_events)

lemma writeFileWithinRoot_decomp:
  assumes d: "destructive ev" and m: "ev \<in> set (snd (writeFileWithinRoot w params))"
  shows "\<exists>rootReal ioPath h created pre.
           w_rootRealpath w (wr_rootDir params) = Inr rootReal \<and>
           fst (openForWrite w ioPath) = Inr (h, created) \<and>
           snd (writeFileWithinRoot w params) =
             pre @ snd (verifyAndWrite w (ensureTrailingSep rootReal) ioPath h created
                          (wr_data params)) @ [EvClose h] \<and>
           (\<forall>e\<in>set pre. \<not> destructive e) \<and>
           fst (writeFileWithinRoot w params) =
             fst (verifyAndWrite w (ensureTrailingSep rootReal) ioPath h created (wr_data params)) \<and>
           ev \<in> set (snd (verifyAndWrite w (ensureTrailingSep rootReal) ioPath h created
                          (wr_data params)))"
proof -
  let ?A = "resolvePathWithinRoot w (wr_rootDir params) (wr_relativePath params)"
  obtain rootReal rws resolved where A: "fst ?A = Inr (rootReal, rws, resolved)"
    using d m
    by (cases "fst ?A")
       (auto simp: writeFileWithinRoot_def mem_io_then dest!: resolvePathWithinRoot_events)
  note Aok = resolvePathWithinRoot_ok [OF A]
  let ?B = "(case w_assertNoPathAliasEscape w resolved rootReal of
          Some err \<Rightarrow> io_throw (SafeOpenError InvalidPath ''path alias escape blocked'' (Some err))
        | None \<Rightarrow> io_return ()) :: unit io"
  let ?C = "(if wr_mkdir params \<noteq> Some False
        then io_call_unit (EvMkdir (path_dirname resolved)) (w_mkdir w (path_dirname resolved))
        else io_return ()) :: unit io"
  let ?D = "resolveWriteIoPath w rws resolved"
  have B: "fst ?B = Inr ()" and Bs: "snd ?B = []"
    using d m A
    by (auto simp: writeFileWithinRoot_def mem_io_then io_throw_def io_return_def
          split: option.splits dest!: resolvePathWithinRoot_events)
  have C: "fst ?C = Inr ()" and Cs: "\<forall>e\<in>set (snd ?C). \<not> destructive e"
    using d m A B
    by (auto simp: writeFileWithinRoot_def mem_io_then io_throw_def io_return_def io_call_unit_def
          split: option.splits if_splits dest!: resolvePathWithinRoot_events)
  obtain ioPath where D: "fst ?D = Inr ioPath"
    using d m A B C
    by (cases "fst ?D")
       (auto simp: writeFileWithinRoot_def mem_io_then mem_io_basic
          split: option.splits if_splits
          dest!: resolvePathWithinRoot_events resolveWriteIoPath_events)
  obtain h created where E: "fst (openForWrite w ioPath) = Inr (h, created)"
    using d m A B C D
    by (cases "fst (openForWrite w ioPath)")
       (auto simp: writeFileWithinRoot_def mem_io_then mem_io_basic
          split: option.splits if_splits
          dest!: resolvePathWithinRoot_events resolveWriteIoPath_events openForWrite_events)
  let ?V = "verifyAndWrite w rws ioPath h created (wr_data params)"
  let ?pre = "snd ?A @ snd ?B @ snd ?C @ snd ?D @ snd (openForWrite w ioPath)"
  have W: "writeFileWithinRoot w params =
     io_then ?A (\<lambda>(rootReal, rootWithSep, resolved).
     io_then (case w_assertNoPathAliasEscape w resolved rootReal of
          Some err \<Rightarrow> io_throw (SafeOpenError InvalidPath ''path alias escape blocked'' (Some err))
        | None \<Rightarrow> io_return ()) (\<lambda>u.
     io_then (if wr_mkdir params \<noteq> Some False
        then io_call_unit (EvMkdir (path_dirname resolved)) (w_mkdir w (path_dirname resolved))
        else io_return ()) (\<lambda>u.
     io_then (resolveWriteIoPath w rootWithSep resolved) (\<lambda>ioPath.
     io_then (openForWrite w ioPath) (\<lambda>(h, createdForWrite).
       io_finally (verifyAndWrite w rootWithSep ioPath h createdForWrite (wr_data params))
         [EvClose h])))))"
    by (simp add: writeFileWithinRoot_def)
  have shape: "snd (writeFileWithinRoot w params) = ?pre @ snd ?V @ [EvClose h]"
    and res: "fst (writeFileWithinRoot w params) = fst ?V"
    unfolding W
    using A B C D E
    by (simp_all add: snd_io_then_Inr fst_io_then_Inr io_finally_def split: prod.splits)
  have pre: "\<forall>e\<in>set ?pre. \<not> destructive e"
    using Bs Cs
    by (auto dest: resolvePathWithinRoot_nondestructive resolveWriteIoPath_events
          openForWrite_events)
  have "ev \<in> set (snd ?V)"
    using m d pre unfolding shape by auto
  with Aok E shape res pre show ?thesis
    by (intro exI [of _ rootReal] exI [of _ ioPath] exI [of _ h] exI [of _ created]
          exI [of _ ?pre]) simp
qed

text \<open>Where the destructive calls of \<^verbatim>\<open>writeFileWithinRoot\<close> stand. A truncation
  happens only on a file that existed, after every check has passed, and no call before
  it changes or removes anything. A removal happens only after the file has been created
  by this call and the checks on handle and path have passed, when a check on the real
  path fails; what is removed is the real path that was just asked for.\<close>

lemma writeFileWithinRoot_destructive_calls:
  "(EvTruncate h \<in> set (snd (writeFileWithinRoot w params)) \<longrightarrow>
      (\<exists>rootReal ioPath real pre rest.
         w_rootRealpath w (wr_rootDir params) = Inr rootReal \<and>
         w_open w ioPath OPEN_WRITE_EXISTING_FLAGS = Inr h \<and>
         firstWriteChecksPass w ioPath h \<and>
         w_realpath w ioPath = Inr real \<and>
         laterWriteChecksPass w (ensureTrailingSep rootReal) h real \<and>
         snd (writeFileWithinRoot w params) =
           pre @ [EvFstat h, EvLstat ioPath, EvRealpath ioPath, EvStat real, EvTruncate h] @ rest \<and>
         (\<forall>ev\<in>set pre. \<not> destructive ev))) \<and>
   (EvRm q \<in> set (snd (writeFileWithinRoot w params)) \<longrightarrow>
      (\<exists>rootReal ioPath h' c m pre.
         w_rootRealpath w (wr_rootDir params) = Inr rootReal \<and>
         w_open w ioPath OPEN_WRITE_EXISTING_FLAGS = Inl ENOENT \<and>
         w_open w ioPath OPEN_WRITE_CREATE_FLAGS = Inr h' \<and>
         firstWriteChecksPass w ioPath h' \<and>
         w_realpath w ioPath = Inr q \<and>
         \<not> laterWriteChecksPass w (ensureTrailingSep rootReal) h' q \<and>
         fst (writeFileWithinRoot w params) = Inl (SafeOpenError c m None) \<and>
         c \<in> {PathMismatch, InvalidPath, OutsideWorkspace} \<and>
         snd (writeFileWithinRoot w params) =
           pre @ [EvFstat h', EvLstat ioPath, EvRealpath ioPath, EvStat q, EvRm q, EvClose h'] \<and>
         (\<forall>ev\<in>set pre. \<not> destructive ev)))"
proof (intro conjI impI)
  assume m: "EvTruncate h \<in> set (snd (writeFileWithinRoot w params))"
  from writeFileWithinRoot_decomp [OF _ m]
  obtain rootReal ioPath h0 created pre where
    rr: "w_rootRealpath w (wr_rootDir params) = Inr rootReal"
    and op: "fst (openForWrite w ioPath) = Inr (h0, created)"
    and shape: "snd (writeFileWithinRoot w params) =
             pre @ snd (verifyAndWrite w (ensureTrailingSep rootReal) ioPath h0 created
                          (wr_data params)) @ [EvClose h0]"
    and pre: "\<forall>e\<in>set pre. \<not> destructive e"
    and mem: "EvTruncate h \<in> set (snd (verifyAndWrite w (ensureTrailingSep rootReal) ioPath h0
                 created (wr_data params)))"
    by auto
  from verifyAndWrite_truncate [OF mem]
  obtain real rest where h: "h = h0" and nc: "\<not> created"
    and f: "firstWriteChecksPass w ioPath h0"
    and rp: "w_realpath w ioPath = Inr real"
    and l: "laterWriteChecksPass w (ensureTrailingSep rootReal) h0 real"
    and vs: "snd (verifyAndWrite w (ensureTrailingSep rootReal) ioPath h0 created (wr_data params)) =
              [EvFstat h0, EvLstat ioPath, EvRealpath ioPath, EvStat real, EvTruncate h0] @ rest"
    by auto
  from openForWrite_ok [OF op] nc
  have ex: "w_open w ioPath OPEN_WRITE_EXISTING_FLAGS = Inr h0" by simp
  show "\<exists>rootReal ioPath real pre rest.
         w_rootRealpath w (wr_rootDir params) = Inr rootReal \<and>
         w_open w ioPath OPEN_WRITE_EXISTING_FLAGS = Inr h \<and>
         firstWriteChecksPass w ioPath h \<and>
         w_realpath w ioPath = Inr real \<and>
         laterWriteChecksPass w (ensureTrailingSep rootReal) h real \<and>
         snd (writeFileWithinRoot w params) =
           pre @ [EvFstat h, EvLstat ioPath, EvRealpath ioPath, EvStat real, EvTruncate h] @ rest \<and>
         (\<forall>ev\<in>set pre. \<not> destructive ev)"
    using rr ex f rp l pre shape vs h
    by (intro exI [of _ rootReal] exI [of _ ioPath] exI [of _ real] exI [of _ pre]
          exI [of _ "rest @ [EvClose h0]"]) simp
next
  assume m: "EvRm q \<in> set (snd (writeFileWithinRoot w params))"
  from writeFileWithinRoot_decomp [OF _ m]
  obtain rootReal ioPath h0 created pre where
    rr: "w_rootRealpath w (wr_rootDir params) = Inr rootReal"
    and op: "fst (openForWrite w ioPath) = Inr (h0, created)"
    and shape: "snd (writeFileWithinRoot w params) =
             pre @ snd (verifyAndWrite w (ensureTrailingSep rootReal) ioPath h0 created
                          (wr_data params)) @ [EvClose h0]"
    and pre: "\<forall>e\<in>set pre. \<not> destructive e"
    and res: "fst (writeFileWithinRoot w params) =
             fst (verifyAndWrite w (ensureTrailingSep rootReal) ioPath h0 created (wr_data params))"
    and mem: "EvRm q \<in> set (snd (verifyAndWrite w (ensureTrailingSep rootReal) ioPath h0
                 created (wr_data params)))"
    by auto
  from verifyAndWrite_rm [OF mem]
  obtain c m where cr: created
    and f: "firstWriteChecksPass w ioPath h0"
    and rp: "w_realpath w ioPath = Inr q"
    and l: "\<not> laterWriteChecksPass w (ensureTrailingSep rootReal) h0 q"
    and e: "fst (verifyAndWrite w (ensureTrailingSep rootReal) ioPath h0 created (wr_data params))
              = Inl (SafeOpenError c m None)"
    and c: "c \<in> {PathMismatch, InvalidPath, OutsideWorkspace}"
    and vs: "snd (verifyAndWrite w (ensureTrailingSep rootReal) ioPath h0 created (wr_data params)) =
              [EvFstat h0, EvLstat ioPath, EvRealpath ioPath, EvStat q, EvRm q]"
    by auto
  from openForWrite_ok [OF op] cr
  have ex: "w_open w ioPath OPEN_WRITE_EXISTING_FLAGS = Inl ENOENT"
    and cre: "w_open w ioPath OPEN_WRITE_CREATE_FLAGS = Inr h0" by simp_all
  show "\<exists>rootReal ioPath h' c m pre.
         w_rootRealpath w (wr_rootDir params) = Inr rootReal \<and>
         w_open w ioPath OPEN_WRITE_EXISTING_FLAGS = Inl ENOENT \<and>
         w_open w ioPath OPEN_WRITE_CREATE_FLAGS = Inr h' \<and>
         firstWriteChecksPass w ioPath h' \<and>
         w_realpath w ioPath = Inr q \<and>
         \<not> laterWriteChecksPass w (ensureTrailingSep rootReal) h' q \<and>
         fst (writeFileWithinRoot w params) = Inl (SafeOpenError c m None) \<and>
         c \<in> {PathMismatch, InvalidPath, OutsideWorkspace} \<and>
         snd (writeFileWithinRoot w params) =
           pre @ [EvFstat h', EvLstat ioPath, EvRealpath ioPath, EvStat q, EvRm q, EvClose h'] \<and>
         (\<forall>ev\<in>set pre. \<not> destructive ev)"
    using rr ex cre f rp l pre shape vs res e c
    by (intro exI [of _ rootReal] exI [of _ ioPath] exI [of _ h0] exI [of _ c] exI [of _ m]
          exI [of _ pre]) simp
qed

text \<open>
  Claim C8 (no destruction before validation). The claim is that a rejected write never
  destroys data: truncation and the removal of a file just created happen only after the
  identity, hard link and containment checks have passed. The truncation is placed so.
  The removal is not: \<^verbatim>\<open>openedRealPath\<close> is assigned from \<^verbatim>\<open>fs.realpath\<close> before the
  identity of the real path is compared with the handle's, and the \<^verbatim>\<open>catch\<close> block
  removes it on every \<open>SafeOpenError\<close>. Here the call creates \<^verbatim>\<open>/work/d/new.txt\<close>, the
  real path then reported is \<^verbatim>\<open>/etc/victim.conf\<close>, a file with another identity and
  outside the root; the write is rejected with \<open>path-mismatch\<close>, and the call removes
  \<^verbatim>\<open>/etc/victim.conf\<close>.
\<close>

theorem rejected_write_removes_other_file:
  "writeFileWithinRoot victim_world (writeParams [''work''] [''d'', ''new.txt''] ''x'') =
     (Inl (SafeOpenError PathMismatch ''path mismatch'' None),
      [EvRealpath [''work''], EvRealpath [''home'', ''user''], EvMkdir [''work'', ''d''],
       EvRealpath [''work'', ''d'', ''new.txt''],
       EvOpen [''work'', ''d'', ''new.txt''] OPEN_WRITE_EXISTING_FLAGS,
       EvOpen [''work'', ''d'', ''new.txt''] OPEN_WRITE_CREATE_FLAGS,
       EvFstat 3, EvLstat [''work'', ''d'', ''new.txt''], EvRealpath [''work'', ''d'', ''new.txt''],
       EvStat [''etc'', ''victim.conf''], EvRm [''etc'', ''victim.conf''], EvClose 3]) \<and>
   w_fstat victim_world 3 = Inr new_file_stat \<and>
   w_stat victim_world [''etc'', ''victim.conf''] = Inr victim_stat \<and>
   \<not> sameFileIdentity new_file_stat victim_stat \<and>
   \<not> isPathInside [''work''] [''etc'', ''victim.conf'']"
  by code_simp

section \<open>Error codes of the root-scoped helpers\<close>

lemma resolvePathWithinRoot_codes:
  "failureCode (resolvePathWithinRoot w root rel) \<in> {None, Some NotFound, Some OutsideWorkspace}"
  by (auto simp: resolvePathWithinRoot_def expandRelativePathWithHome_def io_defs failureCode_def
        Let_def isNotFoundPathError_def split: sum.splits if_splits elim!: hasNodeErrorCode.elims)

lemma openFileWithinRoot_codes:
  "failureCode (openFileWithinRoot w params) \<in>
     {None, Some NotFound, Some InvalidPath, Some OutsideWorkspace}"
proof (cases "resolvePathWithinRoot w (o_rootDir params) (o_relativePath params)")
  case (Pair r t)
  show ?thesis
  proof (cases r)
    case (Inl e)
    with Pair resolvePathWithinRoot_codes [of w "o_rootDir params" "o_relativePath params"]
    show ?thesis by (auto simp: openFileWithinRoot_def io_then_def failureCode_def)
  next
    case (Inr x)
    obtain rootReal rootWithSep resolved where x: "x = (rootReal, rootWithSep, resolved)"
      by (cases x) auto
    obtain r2 t2 where o: "openVerifiedLocalFile w resolved None = (r2, t2)"
      by (cases "openVerifiedLocalFile w resolved None") auto
    show ?thesis
      using Pair Inr x o
      by (cases r2)
         (auto simp: openFileWithinRoot_def io_defs failureCode_def not_safe_code
            split: if_splits dest: safeOpenErrorCode_cases)
  qed
qed

lemma readOpened_codes:
  "failureCode (readOpenedFileSafely w opened mb) \<in> {None, Some TooLarge}"
  by (auto simp: readOpenedFileSafely_def io_defs failureCode_def split: option.splits sum.splits)

lemma readFileWithinRoot_codes:
  "failureCode (readFileWithinRoot w params) \<in>
     {None, Some NotFound, Some InvalidPath, Some OutsideWorkspace, Some TooLarge}"
proof -
  let ?op = "\<lparr>o_rootDir = rd_rootDir params, o_relativePath = rd_relativePath params,
           o_rejectHardlinks = rd_rejectHardlinks params\<rparr>"
  obtain r t where o: "openFileWithinRoot w ?op = (r, t)"
    by (cases "openFileWithinRoot w ?op") auto
  show ?thesis
  proof (cases r)
    case (Inl e)
    with o openFileWithinRoot_codes [of w ?op] show ?thesis
      by (auto simp: readFileWithinRoot_def io_then_def failureCode_def)
  next
    case (Inr opened)
    obtain r3 t3 where rd: "readOpenedFileSafely w opened (rd_maxBytes params) = (r3, t3)"
      by (cases "readOpenedFileSafely w opened (rd_maxBytes params)") auto
    with o Inr readOpened_codes [of w opened "rd_maxBytes params"] show ?thesis
      by (auto simp: readFileWithinRoot_def io_then_def io_finally_def failureCode_def)
  qed
qed

lemma openFileWithinRoot_wraps:
  assumes "fst (resolvePathWithinRoot w (o_rootDir params) (o_relativePath params))
             = Inr (rootReal, rootWithSep, resolved)"
    and "fst (openVerifiedLocalFile w resolved None) = Inl e"
  shows "fst (openFileWithinRoot w params) =
           Inl (if isSafeOpenError e \<and> safeOpenErrorCode e \<noteq> Some NotFound
                then SafeOpenError InvalidPath ''path is not a regular file under root'' (Some e)
                else e)"
proof -
  obtain t where r: "resolvePathWithinRoot w (o_rootDir params) (o_relativePath params)
      = (Inr (rootReal, rootWithSep, resolved), t)"
    using assms(1) by (cases "resolvePathWithinRoot w (o_rootDir params) (o_relativePath params)") auto
  obtain t2 where o: "openVerifiedLocalFile w resolved None = (Inl e, t2)"
    using assms(2) by (cases "openVerifiedLocalFile w resolved None") auto
  show ?thesis using r o
    by (auto simp: openFileWithinRoot_def io_defs)
qed

text \<open>
  Claim C9 (error-code collapsing), as the code has it. When the inner verified open fails
  with a \<open>SafeOpenError\<close> other than \<open>not-found\<close>, \<^verbatim>\<open>openFileWithinRoot\<close> fails with
  \<open>invalid-path\<close> and that error as cause; a \<open>not-found\<close> error and an error that is no
  \<open>SafeOpenError\<close> pass unchanged. The classification of a failure of
  \<^verbatim>\<open>openFileWithinRoot\<close> is therefore \<open>not-found\<close>, \<open>invalid-path\<close> or
  \<open>outside-workspace\<close>, that of \<^verbatim>\<open>readFileWithinRoot\<close> one of these or \<open>too-large\<close>, and
  never \<open>symlink\<close>, \<open>not-file\<close> or \<open>path-mismatch\<close>.
\<close>

theorem open_within_root_error_wrapping:
  "(fst (resolvePathWithinRoot w (o_rootDir params) (o_relativePath params))
       = Inr (rootReal, rootWithSep, resolved) \<and>
    fst (openVerifiedLocalFile w resolved None) = Inl e \<longrightarrow>
      fst (openFileWithinRoot w params) =
        Inl (if isSafeOpenError e \<and> safeOpenErrorCode e \<noteq> Some NotFound
             then SafeOpenError InvalidPath ''path is not a regular file under root'' (Some e)
             else e)) \<and>
   failureCode (openFileWithinRoot w params) \<in>
     {None, Some NotFound, Some InvalidPath, Some OutsideWorkspace} \<and>
   failureCode (readFileWithinRoot w rparams) \<in>
     {None, Some NotFound, Some InvalidPath, Some OutsideWorkspace, Some TooLarge}"
  using openFileWithinRoot_wraps [of w params rootReal rootWithSep resolved e]
    openFileWithinRoot_codes [of w params] readFileWithinRoot_codes [of w rparams]
  by blast

theorem open_within_root_error_wrapping_witness:
  "fst (openVerifiedLocalFile ((quiet_world a_txt_stat)\<lparr>w_lstat := (\<lambda>p. Inr link_stat)\<rparr>)
          [''work'', ''a.txt''] None) =
     Inl (SafeOpenError Symlink ''symlink not allowed'' None) \<and>
   fst (openFileWithinRoot ((quiet_world a_txt_stat)\<lparr>w_lstat := (\<lambda>p. Inr link_stat)\<rparr>)
          (openParams [''work''] [''a.txt''] None)) =
     Inl (SafeOpenError InvalidPath ''path is not a regular file under root''
            (Some (SafeOpenError Symlink ''symlink not allowed'' None)))"
proof -
  have r: "fst (resolvePathWithinRoot ((quiet_world a_txt_stat)\<lparr>w_lstat := (\<lambda>p. Inr link_stat)\<rparr>)
                  (o_rootDir (openParams [''work''] [''a.txt''] None))
                  (o_relativePath (openParams [''work''] [''a.txt''] None)))
             = Inr ([''work''], [''work''], [''work'', ''a.txt''])"
    by code_simp
  have o: "fst (openVerifiedLocalFile ((quiet_world a_txt_stat)\<lparr>w_lstat := (\<lambda>p. Inr link_stat)\<rparr>)
          [''work'', ''a.txt''] None) =
     Inl (SafeOpenError Symlink ''symlink not allowed'' None)"
    by code_simp
  from r o open_within_root_error_wrapping [of
      "(quiet_world a_txt_stat)\<lparr>w_lstat := (\<lambda>p. Inr link_stat)\<rparr>"
      "openParams [''work''] [''a.txt''] None" "[''work'']" "[''work'']" "[''work'', ''a.txt'']"
      "SafeOpenError Symlink ''symlink not allowed'' None"]
  show ?thesis by simp
qed

text \<open>
  Claim C9 as stated says that every failure of the inner open other than \<open>not-found\<close> is
  wrapped into \<open>invalid-path\<close>. A permission error of the open is no \<open>SafeOpenError\<close>
  and reaches the caller as it is.
\<close>

theorem raw_error_not_wrapped_counterexample:
  "fst (openVerifiedLocalFile ((quiet_world a_txt_stat)\<lparr>w_open := (\<lambda>p fl. Inl EACCES)\<rparr>)
          [''work'', ''a.txt''] None) = Inl (NodeError EACCES) \<and>
   fst (openFileWithinRoot ((quiet_world a_txt_stat)\<lparr>w_open := (\<lambda>p fl. Inl EACCES)\<rparr>)
          (openParams [''work''] [''a.txt''] None)) = Inl (NodeError EACCES)"
  by code_simp

section \<open>The facade\<close>

lemma openBoundaryFileResolved_throw:
  "openBoundaryFileResolved ov rf mb rh at = Inl err \<Longrightarrow> \<exists>vp. ov vp = Inl err"
  by (auto simp: openBoundaryFileResolved_def split: sum.splits SafeOpenSyncResult.splits)

text \<open>
  Claim C10 (the facade does not throw on a validation failure). Whenever the resolver
  fails, with whatever error, \<^verbatim>\<open>openBoundaryFileSync\<close> and \<^verbatim>\<open>openBoundaryFile\<close> return the
  value with \<open>ok\<close> false, reason ``validation'' and that error. An error that the facade
  does throw comes from the opener, never from the resolver.
\<close>

theorem facade_returns_validation_failure:
  "(resolveBoundaryPathSync ops (facadeResolveParams params None) = Inl e \<longrightarrow>
      openBoundaryFileSync ops ov params = Inr (BoundaryFailed ''validation'' (Some e))) \<and>
   (resolveBoundaryPath ops (facadeResolveParams params (b_aliasPolicy params)) = Inl e \<longrightarrow>
      openBoundaryFile ops ov params = Inr (BoundaryFailed ''validation'' (Some e))) \<and>
   (openBoundaryFileSync ops ov params = Inl err \<longrightarrow> (\<exists>vp. ov vp = Inl err)) \<and>
   (openBoundaryFile ops ov params = Inl err \<longrightarrow> (\<exists>vp. ov vp = Inl err))"
  by (auto simp: openBoundaryFileSync_def openBoundaryFile_def resolveBoundaryFilePathGeneric_def
        facadeResolveParams_def toBoundaryValidationError_def Let_def
        split: sum.splits dest: openBoundaryFileResolved_throw)

theorem facade_returns_validation_failure_witness:
  "resolveBoundaryPathSync (ops_of_table fs_demo)
       (facadeResolveParams (boundaryParams [''work'', ''link''] [''work''] None None) None)
     = Inl (SymlinkEscapesError ''workspace root'' [''work''] [''work'', ''link'']) \<and>
   openBoundaryFileSync (ops_of_table fs_demo) (openVerifiedFileSync (quiet_world a_txt_stat))
       (boundaryParams [''work'', ''link''] [''work''] None None)
     = Inr (BoundaryFailed ''validation''
              (Some (SymlinkEscapesError ''workspace root'' [''work''] [''work'', ''link'']))) \<and>
   openBoundaryFile (ops_of_table fs_demo) (openVerifiedFileSync (quiet_world a_txt_stat))
       (boundaryParams [''work'', ''link''] [''work''] None None)
     = Inr (BoundaryFailed ''validation''
              (Some (SymlinkEscapesError ''workspace root'' [''work''] [''work'', ''link''])))"
proof -
  have s: "resolveBoundaryPathSync (ops_of_table fs_demo)
       (facadeResolveParams (boundaryParams [''work'', ''link''] [''work''] None None) None)
     = Inl (SymlinkEscapesError ''workspace root'' [''work''] [''work'', ''link''])"
    by code_simp
  have a: "resolveBoundaryPath (ops_of_table fs_demo)
       (facadeResolveParams (boundaryParams [''work'', ''link''] [''work''] None None)
          (b_aliasPolicy (boundaryParams [''work'', ''link''] [''work''] None None)))
     = Inl (SymlinkEscapesError ''workspace root'' [''work''] [''work'', ''link''])"
    by code_simp
  from s a facade_returns_validation_failure [of "ops_of_table fs_demo"
      "boundaryParams [''work'', ''link''] [''work''] None None"
      "SymlinkEscapesError ''workspace root'' [''work''] [''work'', ''link'']"
      "openVerifiedFileSync (quiet_world a_txt_stat)"]
  show ?thesis by simp
qed

end
